theory Spec2Isabelle
  imports Main
begin

text \<open>
  A model of \<^verbatim>\<open>Window::MediaPreviewWidget\<close> (\<^verbatim>\<open>window/window_media_preview.cpp\<close>) and of
  the Linux platform utility (\<^verbatim>\<open>ui/platform/linux/ui_platform_utility_linux.h\<close>) of
  Telegram Desktop. The widget is a record of its fields, each member function a function
  on that record, and the properties of the preview (the fitted size, the choice of the
  picture, the fade, the emoji list) are proved about these functions.
\<close>

section \<open>C++ \<^verbatim>\<open>int\<close> arithmetic\<close>

text \<open>
  The widget computes with C++ \<^verbatim>\<open>int\<close> (32 bits, two's complement). Values are
  modelled as \<^typ>\<open>int\<close>, and the result of a subtraction, a product or a quotient
  of two of them is brought back into the 32-bit range by \<open>int32\<close>: C++ leaves signed overflow
  undefined, and wrapping around is what the target machines do. \<open>cdiv\<close> is the C++
  division, which truncates towards zero (HOL's \<open>div\<close> rounds down). Its divisor is
  never 0 where the widget divides: it is a width or height that \<^verbatim>\<open>qMax\<close> has made
  at least 1, the constant 2, or \<^verbatim>\<open>cIntRetinaFactor()\<close>, by which the constructor has
  divided before any other member function runs.
\<close>

definition int32 :: "int \<Rightarrow> int" where
  "int32 x = (x + 2147483648) mod 4294967296 - 2147483648"

definition csub :: "int \<Rightarrow> int \<Rightarrow> int" where
  "csub a b = int32 (a - b)"

definition cmul :: "int \<Rightarrow> int \<Rightarrow> int" where
  "cmul a b = int32 (a * b)"

definition cdiv :: "int \<Rightarrow> int \<Rightarrow> int" where
  "cdiv a b = int32 (sgn a * sgn b * (\<bar>a\<bar> div \<bar>b\<bar>))"

definition qMax :: "int \<Rightarrow> int \<Rightarrow> int" where
  "qMax a b = (if a < b then b else a)"

section \<open>Toolkit values\<close>

text \<open>
  \<open>QSize\<close>: a default-constructed \<^verbatim>\<open>QSize()\<close> is \<open>(-1, -1)\<close>, and
  \<^verbatim>\<open>isEmpty()\<close> holds when either side is below 1.
\<close>

record QSize =
  width :: int
  height :: int

definition QSize_default :: QSize where
  "QSize_default = \<lparr>width = - 1, height = - 1\<rparr>"

definition isEmpty :: "QSize \<Rightarrow> bool" where
  "isEmpty sz = (width sz < 1 \<or> height sz < 1)"

record QRect =
  rect_x :: int
  rect_y :: int
  rect_size :: QSize

text \<open>
  A \<open>QPixmap\<close> is known by its pixel size and by the picture it holds; the null
  pixmap \<^verbatim>\<open>QPixmap()\<close> has size 0 by 0. A \<open>QImage\<close> (a lottie frame) likewise.
\<close>

record QPixmap =
  pm_width :: int
  pm_height :: int
  pm_picture :: nat

definition QPixmap_null :: QPixmap where
  "QPixmap_null = \<lparr>pm_width = 0, pm_height = 0, pm_picture = 0\<rparr>"

datatype QImage = QImage_null | QImage_frame int int nat

type_synonym FileOrigin = nat
type_synonym EmojiPtr = nat

section \<open>Collaborator data\<close>

text \<open>An \<open>Image\<close> (a thumbnail, a full sticker or photo image) and its \<^verbatim>\<open>loaded()\<close> flag.\<close>

record Image =
  image_id :: nat
  image_loaded :: bool

record StickerData =
  alt :: string
  animated :: bool

text \<open>
  What the widget reads of a \<open>DocumentData\<close>: \<^verbatim>\<open>dimensions\<close>, \<^verbatim>\<open>isAnimation()\<close>,
  \<^verbatim>\<open>sticker()\<close> (null for a document that is no sticker), \<^verbatim>\<open>isVideoMessage()\<close>,
  \<^verbatim>\<open>loaded()\<close>, \<^verbatim>\<open>hasThumbnail()\<close>, \<^verbatim>\<open>thumbnail()\<close>, \<^verbatim>\<open>thumbnailInline()\<close>
  and \<^verbatim>\<open>getStickerLarge()\<close> (both may be null).
\<close>

record DocumentData =
  dimensions :: QSize
  isAnimation :: bool
  sticker :: "StickerData option"
  isVideoMessage :: bool
  doc_loaded :: bool
  hasThumbnail :: bool
  doc_thumbnail :: Image
  doc_thumbnailInline :: "Image option"
  getStickerLarge :: "Image option"

record PhotoData =
  photo_width :: int
  photo_height :: int
  photo_loaded :: bool
  large :: Image
  photo_thumbnail :: Image
  thumbnailSmall :: Image
  photo_thumbnailInline :: "Image option"

text \<open>
  A \<open>Media::Clip::Reader\<close> as the widget observes it, and the \<open>ReaderPointer\<close>
  that holds it: null, marked bad, or a reader. \<^verbatim>\<open>if (_gif)\<close> holds for a reader only.
\<close>

record Reader =
  reader_error :: bool
  reader_ready :: bool
  reader_started :: bool
  reader_width :: int
  reader_height :: int
  currentDisplayed :: bool

datatype ReaderPointer = Reader_null | Reader_bad | Reader_at Reader

fun valid :: "ReaderPointer \<Rightarrow> bool" where
  "valid (Reader_at r) = True"
| "valid _ = False"

fun isBad :: "ReaderPointer \<Rightarrow> bool" where
  "isBad Reader_bad = True"
| "isBad _ = False"

record SinglePlayer =
  lottie_ready :: bool
  lottie_frame :: QImage

datatype GifPauseReason = MediaPreview | OtherReason nat

datatype Notification = NotificationReinit | NotificationRepaint

text \<open>
  \<open>Ui::Animations::Simple\<close>: either idle, or running between two end points for a
  duration. The end points used by the widget are \<open>0.\<close> and \<open>1.\<close>, kept as integers.
\<close>

datatype Simple = Idle | Running int int int

fun animating :: "Simple \<Rightarrow> bool" where
  "animating Idle = False"
| "animating (Running a b d) = True"

section \<open>Constants and collaborators that live in other files\<close>

text \<open>
  The style constants (\<^verbatim>\<open>st::boxVerticalMargin\<close>, \<^verbatim>\<open>st::maxStickerSize\<close>,
  \<^verbatim>\<open>st::stickerPreviewDuration\<close>), \<^verbatim>\<open>cIntRetinaFactor()\<close>, \<^verbatim>\<open>style::ConvertScale\<close>,
  the emoji lookup functions, the image scalers \<^verbatim>\<open>pix\<close> and \<^verbatim>\<open>pixBlurred\<close>, the
  clip reader and the lottie player are defined outside the two files verified here.
  They are parameters of the model: every operation takes an \<open>env\<close>. What a
  collaborator returns is fixed by the \<open>env\<close> and its arguments; \<open>crl_now\<close> is the
  clock reading \<^verbatim>\<open>crl::now()\<close>, and \<open>qRound_outside\<close> is what the toolkit's
  \<^verbatim>\<open>qRound\<close> makes of a number that no \<^verbatim>\<open>int\<close> holds.
\<close>

record env =
  boxVerticalMargin :: int
  maxStickerSize :: int
  stickerPreviewDuration :: int
  cIntRetinaFactor :: int
  qRound_outside :: "int \<Rightarrow> int"
  ConvertScale :: "int \<Rightarrow> int"
  Emoji_Find :: "string \<Rightarrow> EmojiPtr option"
  GetEmojiListFromSet :: "DocumentData \<Rightarrow> EmojiPtr list option"
  pix :: "Image \<Rightarrow> FileOrigin \<Rightarrow> int \<Rightarrow> int \<Rightarrow> QPixmap"
  pixBlurred :: "Image \<Rightarrow> FileOrigin \<Rightarrow> int \<Rightarrow> int \<Rightarrow> QPixmap"
  MakeReader :: "DocumentData \<Rightarrow> ReaderPointer"
  setAutoplay :: "Reader \<Rightarrow> Reader"
  reader_start :: "Reader \<Rightarrow> int \<Rightarrow> int \<Rightarrow> Reader"
  reader_current :: "Reader \<Rightarrow> int \<Rightarrow> int \<Rightarrow> int \<Rightarrow> QPixmap"
  Lottie_SinglePlayer :: "DocumentData \<Rightarrow> QSize \<Rightarrow> SinglePlayer"
  markFrameShown :: "SinglePlayer \<Rightarrow> SinglePlayer"
  isGifPausedAtLeastFor :: "GifPauseReason set \<Rightarrow> GifPauseReason \<Rightarrow> bool"
  crl_now :: int

section \<open>The widget\<close>

datatype CacheStatus = CacheNotLoaded | CacheThumbLoaded | CacheLoaded

text \<open>
  Requests the widget sends out and that change none of its fields: repaint requests
  (\<^verbatim>\<open>update()\<close>, \<^verbatim>\<open>update(rect)\<close>) and load requests on the previewed item. They
  are appended to the \<open>requests\<close> log of the state, newest last.
\<close>

datatype Request =
  Update
| UpdateRect QRect
| DocumentAutomaticLoad
| DocumentThumbnailLoad
| PhotoLoad
| PhotoThumbnailSmallLoad

text \<open>
  The fields of \<open>MediaPreviewWidget\<close>, with the three properties of the underlying
  \<open>QWidget\<close> that the code reads (\<^verbatim>\<open>isHidden()\<close>, \<^verbatim>\<open>width()\<close>, \<^verbatim>\<open>height()\<close>) and
  the set of gif-pause reasons enabled in the session controller \<^verbatim>\<open>_controller\<close>.
  \<^verbatim>\<open>_photo\<close> and \<^verbatim>\<open>_document\<close> are pointers: \<open>None\<close> is the null pointer, and
  \<open>Some\<close> holds what the widget reads of the item. \<^verbatim>\<open>_emojiSize\<close> is set once by
  the constructor and read for drawing only; it has no field here.
\<close>

record MediaPreviewWidget =
  isHidden :: bool
  widget_width :: int
  widget_height :: int
  gifPauseReasons :: "GifPauseReason set"
  a_shown :: Simple
  hiding :: bool
  origin :: FileOrigin
  photo :: "PhotoData option"
  document :: "DocumentData option"
  gif :: ReaderPointer
  lottie :: "SinglePlayer option"
  cacheStatus :: CacheStatus
  cachedSize :: QSize
  cache :: QPixmap
  emojiList :: "EmojiPtr list"
  requests :: "Request list"

definition kStickerPreviewEmojiLimit :: nat where
  "kStickerPreviewEmojiLimit = 10"

definition update :: "MediaPreviewWidget \<Rightarrow> MediaPreviewWidget" where
  "update s = s\<lparr>requests := requests s @ [Update]\<rparr>"

definition resetGifAndCache :: "MediaPreviewWidget \<Rightarrow> MediaPreviewWidget" where
  "resetGifAndCache s =
     s\<lparr>lottie := None, gif := Reader_null,
       cacheStatus := CacheNotLoaded, cachedSize := QSize_default\<rparr>"

subsection \<open>currentDimensions\<close>

text \<open>
  Lines 206 to 214: the scaled size, at least 1 by 1, is shrunk to the box, first by
  width, then by height.
\<close>

definition fitToBox :: "env \<Rightarrow> QSize \<Rightarrow> QSize \<Rightarrow> QSize" where
  "fitToBox env result0 box =
     (let result1 = \<lparr>width = qMax (ConvertScale env (width result0)) 1,
                      height = qMax (ConvertScale env (height result0)) 1\<rparr>;
          result2 = (if width result1 > width box
                     then \<lparr>width = width box,
                          height = qMax (cdiv (cmul (width box) (height result1)) (width result1)) 1\<rparr>
                     else result1);
          result3 = (if height result2 > height box
                     then \<lparr>width = qMax (cdiv (cmul (height box) (width result2)) (height result2)) 1,
                          height = height box\<rparr>
                     else result2)
      in result3)"

text \<open>The bounding box of lines 194, 201 and 203.\<close>

definition photoBox :: "env \<Rightarrow> MediaPreviewWidget \<Rightarrow> QSize" where
  "photoBox env s =
     \<lparr>width = csub (widget_width s) (cmul 2 (boxVerticalMargin env)),
      height = csub (widget_height s) (cmul 2 (boxVerticalMargin env))\<rparr>"

definition documentBox :: "env \<Rightarrow> DocumentData \<Rightarrow> QSize" where
  "documentBox env d =
     (if sticker d \<noteq> None
      then \<lparr>width = maxStickerSize env, height = maxStickerSize env\<rparr>
      else \<lparr>width = cmul 2 (maxStickerSize env), height = cmul 2 (maxStickerSize env)\<rparr>)"

text \<open>
  Lines 196 to 199: a document starts from its \<^verbatim>\<open>dimensions\<close>, or from the size of
  the clip once \<^verbatim>\<open>_gif\<close> is a ready reader.
\<close>

definition documentResult :: "MediaPreviewWidget \<Rightarrow> DocumentData \<Rightarrow> QSize" where
  "documentResult s d =
     (case gif s of
        Reader_at r \<Rightarrow>
          if reader_ready r
          then \<lparr>width = reader_width r, height = reader_height r\<rparr>
          else dimensions d
      | _ \<Rightarrow> dimensions d)"

text \<open>
  \<^verbatim>\<open>currentDimensions\<close> is \<^verbatim>\<open>const\<close> but writes the \<^verbatim>\<open>mutable\<close> field
  \<^verbatim>\<open>_cachedSize\<close>, so it returns the size and the state.
\<close>

definition currentDimensions :: "env \<Rightarrow> MediaPreviewWidget \<Rightarrow> QSize \<times> MediaPreviewWidget" where
  "currentDimensions env s =
     (if \<not> isEmpty (cachedSize s) then (cachedSize s, s)
      else case photo s of
        Some p \<Rightarrow>
          (let result = fitToBox env \<lparr>width = photo_width p, height = photo_height p\<rparr> (photoBox env s)
           in (result, s\<lparr>cachedSize := result\<rparr>))
      | None \<Rightarrow>
          (case document s of
             None \<Rightarrow>
               (let sz = \<lparr>width = cdiv (pm_width (cache s)) (cIntRetinaFactor env),
                          height = cdiv (pm_height (cache s)) (cIntRetinaFactor env)\<rparr>
                in (sz, s\<lparr>cachedSize := sz\<rparr>))
           | Some d \<Rightarrow>
               (fitToBox env (documentResult s d) (documentBox env d), s)))"

subsection \<open>Crashes\<close>

text \<open>
  Two operations can stop the program: \<^verbatim>\<open>fillEmojiString\<close> dereferences
  \<^verbatim>\<open>_document\<close> without a check when \<^verbatim>\<open>_photo\<close> is null, and \<^verbatim>\<open>setupLottie\<close>
  begins with \<^verbatim>\<open>Expects(_document != nullptr)\<close>. An operation that can reach one of
  them returns an \<open>option\<close>: \<open>None\<close> is the crash, \<open>Some\<close> the normal return.
\<close>

subsection \<open>fillEmojiString\<close>

text \<open>The loop of lines 166 to 168: \<^verbatim>\<open>pop_back\<close> while the list is longer than the limit.\<close>

function popBackToLimit :: "EmojiPtr list \<Rightarrow> EmojiPtr list" where
  "popBackToLimit xs =
     (if length xs > kStickerPreviewEmojiLimit then popBackToLimit (butlast xs) else xs)"
  by pat_completeness auto
termination
  by (relation "measure length") (auto simp: kStickerPreviewEmojiLimit_def)

declare popBackToLimit.simps [simp del]

definition fillEmojiString :: "env \<Rightarrow> MediaPreviewWidget \<Rightarrow> MediaPreviewWidget option" where
  "fillEmojiString env s0 =
     (let s = s0\<lparr>emojiList := []\<rparr> in
      if photo s \<noteq> None then Some s
      else case document s of
        None \<Rightarrow> None
      | Some d \<Rightarrow>
          (case sticker d of
             None \<Rightarrow> Some s
           | Some st \<Rightarrow>
               (case GetEmojiListFromSet env d of
                  Some list \<Rightarrow> Some (s\<lparr>emojiList := popBackToLimit list\<rparr>)
                | None \<Rightarrow>
                    (case Emoji_Find env (alt st) of
                       Some emoji \<Rightarrow> Some (s\<lparr>emojiList := emojiList s @ [emoji]\<rparr>)
                     | None \<Rightarrow> Some s))))"

subsection \<open>startShow, setupLottie\<close>

text \<open>
  \<^verbatim>\<open>show()\<close> clears \<^verbatim>\<open>isHidden()\<close>; \<^verbatim>\<open>enableGifPauseReason\<close> adds the reason to the
  controller's set and \<^verbatim>\<open>disableGifPauseReason\<close> removes it.
\<close>

definition startShow :: "env \<Rightarrow> MediaPreviewWidget \<Rightarrow> MediaPreviewWidget" where
  "startShow env s0 =
     (let s = s0\<lparr>cache := QPixmap_null\<rparr> in
      if isHidden s \<or> animating (a_shown s)
      then (let s1 = (if isHidden s
                      then s\<lparr>isHidden := False,
                             gifPauseReasons := insert MediaPreview (gifPauseReasons s)\<rparr>
                      else s)
            in s1\<lparr>hiding := False, a_shown := Running 0 1 (stickerPreviewDuration env)\<rparr>)
      else update s)"

text \<open>
  \<^verbatim>\<open>currentDimensions() * cIntRetinaFactor()\<close> is the toolkit's
  \<^verbatim>\<open>operator*(const QSize &, qreal)\<close>: the factor becomes a \<^verbatim>\<open>qreal\<close>, each side is
  multiplied in floating point and \<^verbatim>\<open>qRound\<close> brings the product back to \<^verbatim>\<open>int\<close>.
  The product of two \<^verbatim>\<open>int\<close> values that lies strictly between the least and the
  greatest \<^verbatim>\<open>int\<close> is exact in a \<^verbatim>\<open>qreal\<close> and is what \<^verbatim>\<open>qRound\<close> returns; there
  is no wrap-around here, and any other product is left to \<open>qRound_outside\<close>.
\<close>

definition qRound_product :: "env \<Rightarrow> int \<Rightarrow> int \<Rightarrow> int" where
  "qRound_product env a c =
     (if - 2147483648 < a * c \<and> a * c < 2147483648 then a * c
      else qRound_outside env (a * c))"

definition QSize_times :: "env \<Rightarrow> QSize \<Rightarrow> int \<Rightarrow> QSize" where
  "QSize_times env sz c =
     \<lparr>width = qRound_product env (width sz) c, height = qRound_product env (height sz) c\<rparr>"

definition setupLottie :: "env \<Rightarrow> MediaPreviewWidget \<Rightarrow> MediaPreviewWidget option" where
  "setupLottie env s =
     (case document s of
        None \<Rightarrow> None
      | Some d \<Rightarrow>
          (let (sz, s1) = currentDimensions env s;
               request = QSize_times env sz (cIntRetinaFactor env)
           in Some (s1\<lparr>lottie := Some (Lottie_SinglePlayer env d request)\<rparr>)))"

subsection \<open>currentImage\<close>

text \<open>\<^verbatim>\<open>_lottie && _lottie->ready()\<close>\<close>

definition lottieReady :: "MediaPreviewWidget \<Rightarrow> bool" where
  "lottieReady s = (case lottie s of Some l \<Rightarrow> lottie_ready l | None \<Rightarrow> False)"

text \<open>
  \<^verbatim>\<open>currentImage\<close> is \<^verbatim>\<open>const\<close> too, and writes \<^verbatim>\<open>_cache\<close>, \<^verbatim>\<open>_cacheStatus\<close>,
  \<^verbatim>\<open>_gif\<close> and (through \<^verbatim>\<open>setupLottie\<close>) \<^verbatim>\<open>_lottie\<close>. Every path that does not
  return earlier ends in \<^verbatim>\<open>return _cache\<close>. Its three branches are given one by
  one and put together in \<open>currentImage\<close> below.
\<close>

text \<open>Lines 242 to 259: a sticker.\<close>

definition currentImage_sticker ::
  "env \<Rightarrow> MediaPreviewWidget \<Rightarrow> DocumentData \<Rightarrow> StickerData \<Rightarrow> (QPixmap \<times> MediaPreviewWidget) option" where
  "currentImage_sticker env s d st =
     (if cacheStatus s \<noteq> CacheLoaded
      then Option.bind
             (if animated st \<and> lottie s = None \<and> doc_loaded d
              then setupLottie env s else Some s)
             (\<lambda>s1.
                if lottieReady s1 then Some (QPixmap_null, s1)
                else case getStickerLarge d of
                  Some img \<Rightarrow>
                    (let (sz, s2) = currentDimensions env s1;
                         s3 = s2\<lparr>cache := pix env img (origin s2) (width sz) (height sz),
                                 cacheStatus := CacheLoaded\<rparr>
                     in Some (cache s3, s3))
                | None \<Rightarrow>
                    if cacheStatus s1 \<noteq> CacheThumbLoaded \<and> hasThumbnail d
                       \<and> image_loaded (doc_thumbnail d)
                    then (let (sz, s2) = currentDimensions env s1;
                              s3 = s2\<lparr>cache := pixBlurred env (doc_thumbnail d) (origin s2)
                                                 (width sz) (height sz),
                                      cacheStatus := CacheThumbLoaded\<rparr>
                          in Some (cache s3, s3))
                    else Some (cache s1, s1))
      else Some (cache s, s))"

text \<open>
  Lines 261 to 288: any other document. \<^verbatim>\<open>!_gif && !_gif.isBad()\<close> holds for the null
  pointer only; the reader that \<^verbatim>\<open>MakeReader\<close> gives, if it is one, is set to autoplay.
\<close>

definition currentImage_clip ::
  "env \<Rightarrow> MediaPreviewWidget \<Rightarrow> DocumentData \<Rightarrow> (QPixmap \<times> MediaPreviewWidget) option" where
  "currentImage_clip env s d =
     (let s1 = s\<lparr>requests := requests s @ [DocumentAutomaticLoad]\<rparr>;
          s2 = (if doc_loaded d \<and> \<not> valid (gif s1) \<and> \<not> isBad (gif s1)
                then s1\<lparr>gif := (case MakeReader env d of
                                   Reader_at r \<Rightarrow> Reader_at (setAutoplay env r)
                                 | g \<Rightarrow> g)\<rparr>
                else s1);
          thumb =
            (if cacheStatus s2 \<noteq> CacheThumbLoaded \<and> hasThumbnail d
             then (let (sz, s3) = currentDimensions env s2;
                       s4 = (if image_loaded (doc_thumbnail d)
                             then s3\<lparr>cache := pixBlurred env (doc_thumbnail d) (origin s3)
                                                (width sz) (height sz),
                                     cacheStatus := CacheThumbLoaded\<rparr>
                             else if doc_thumbnailInline d \<noteq> None
                             then s3\<lparr>cache := pixBlurred env (doc_thumbnail d) (origin s3)
                                                (width sz) (height sz),
                                     cacheStatus := CacheThumbLoaded\<rparr>
                             else s3\<lparr>requests := requests s3 @ [DocumentThumbnailLoad]\<rparr>)
                   in Some (cache s4, s4))
             else Some (cache s2, s2))
      in case gif s2 of
           Reader_at r \<Rightarrow>
             if reader_started r
             then (let (sz, s3) = currentDimensions env s2;
                       paused = isGifPausedAtLeastFor env (gifPauseReasons s3) MediaPreview
                   in Some (reader_current env r (width sz) (height sz)
                              (if paused then 0 else crl_now env), s3))
             else thumb
         | _ \<Rightarrow> thumb)"

text \<open>Lines 291 to 314: a photo.\<close>

definition currentImage_photo ::
  "env \<Rightarrow> MediaPreviewWidget \<Rightarrow> PhotoData \<Rightarrow> (QPixmap \<times> MediaPreviewWidget) option" where
  "currentImage_photo env s p =
     (if cacheStatus s \<noteq> CacheLoaded
      then (if photo_loaded p
            then (let (sz, s1) = currentDimensions env s;
                      s2 = s1\<lparr>cache := pix env (large p) (origin s1) (width sz) (height sz),
                              cacheStatus := CacheLoaded\<rparr>
                  in Some (cache s2, s2))
            else (let s1 = s\<lparr>requests := requests s @ [PhotoLoad]\<rparr> in
                  if cacheStatus s1 \<noteq> CacheThumbLoaded
                  then (let (sz, s2) = currentDimensions env s1;
                            s3 = (if image_loaded (photo_thumbnail p)
                                  then s2\<lparr>cache := pixBlurred env (photo_thumbnail p) (origin s2)
                                                     (width sz) (height sz),
                                          cacheStatus := CacheThumbLoaded\<rparr>
                                  else if image_loaded (thumbnailSmall p)
                                  then s2\<lparr>cache := pixBlurred env (thumbnailSmall p) (origin s2)
                                                     (width sz) (height sz),
                                          cacheStatus := CacheThumbLoaded\<rparr>
                                  else case photo_thumbnailInline p of
                                    Some blurred \<Rightarrow>
                                      s2\<lparr>cache := pixBlurred env blurred (origin s2)
                                                     (width sz) (height sz),
                                          cacheStatus := CacheThumbLoaded\<rparr>
                                  | None \<Rightarrow>
                                      s2\<lparr>requests := requests s2 @ [PhotoThumbnailSmallLoad]\<rparr>)
                        in Some (cache s3, s3))
                  else Some (cache s1, s1)))
      else Some (cache s, s))"

definition currentImage :: "env \<Rightarrow> MediaPreviewWidget \<Rightarrow> (QPixmap \<times> MediaPreviewWidget) option" where
  "currentImage env s =
     (case document s of
        Some d \<Rightarrow>
          (case sticker d of
             Some st \<Rightarrow> currentImage_sticker env s d st
           | None \<Rightarrow> currentImage_clip env s d)
      | None \<Rightarrow>
          (case photo s of
             Some p \<Rightarrow> currentImage_photo env s p
           | None \<Rightarrow> Some (cache s, s)))"

subsection \<open>hidePreview, showPreview\<close>

definition hidePreview :: "env \<Rightarrow> MediaPreviewWidget \<Rightarrow> MediaPreviewWidget option" where
  "hidePreview env s =
     (if isHidden s then Some s
      else Option.bind
             (if valid (gif s)
              then map_option (\<lambda>(pm, s1). s1\<lparr>cache := pm\<rparr>) (currentImage env s)
              else Some s)
             (\<lambda>s1. Some (resetGifAndCache
                            (s1\<lparr>hiding := True,
                                a_shown := Running 1 0 (stickerPreviewDuration env),
                                photo := None, document := None\<rparr>))))"

text \<open>
  The two overloads of \<^verbatim>\<open>showPreview\<close>. The parameter is a \<^verbatim>\<open>not_null\<close> pointer, so
  the test \<^verbatim>\<open>!document\<close> of line 106 is never true and has no branch here.
\<close>

definition showPreview_document ::
  "env \<Rightarrow> MediaPreviewWidget \<Rightarrow> FileOrigin \<Rightarrow> DocumentData \<Rightarrow> MediaPreviewWidget option" where
  "showPreview_document env s origin' d =
     (if (\<not> isAnimation d \<and> sticker d = None) \<or> isVideoMessage d
      then hidePreview env s
      else Option.bind
             (fillEmojiString env
                ((startShow env s)\<lparr>origin := origin', photo := None, document := Some d\<rparr>))
             (\<lambda>s1. Some (resetGifAndCache s1)))"

definition showPreview_photo ::
  "env \<Rightarrow> MediaPreviewWidget \<Rightarrow> FileOrigin \<Rightarrow> PhotoData \<Rightarrow> MediaPreviewWidget option" where
  "showPreview_photo env s origin' p =
     Option.bind
       (fillEmojiString env
          ((startShow env s)\<lparr>origin := origin', photo := Some p, document := None\<rparr>))
       (\<lambda>s1. Some (resetGifAndCache s1))"

subsection \<open>Events\<close>

definition updateArea :: "env \<Rightarrow> MediaPreviewWidget \<Rightarrow> QRect \<times> MediaPreviewWidget" where
  "updateArea env s =
     (let (sz, s1) = currentDimensions env s
      in (\<lparr>rect_x = cdiv (csub (widget_width s1) (width sz)) 2,
           rect_y = cdiv (csub (widget_height s1) (height sz)) 2,
           rect_size = sz\<rparr>, s1))"

text \<open>
  \<^verbatim>\<open>paintEvent\<close>: the calls on the painter draw on the screen and change no field, so
  they are left out. What remains is the choice of the picture (which marks the lottie
  frame as shown, or runs \<^verbatim>\<open>currentImage\<close>) and the end of the fade-out: when the
  animation is over and \<^verbatim>\<open>_hiding\<close> is set, the widget hides itself and returns.
\<close>

definition paintEvent :: "env \<Rightarrow> MediaPreviewWidget \<Rightarrow> MediaPreviewWidget option" where
  "paintEvent env s =
     Option.bind
       (case lottie s of
          Some l \<Rightarrow>
            if lottie_ready l
            then Some (lottie_frame (markFrameShown env l),
                       s\<lparr>lottie := Some (markFrameShown env l)\<rparr>)
            else Some (QImage_null, s)
        | None \<Rightarrow> Some (QImage_null, s))
       (\<lambda>(frame, s1).
          Option.bind
            (if frame = QImage_null then currentImage env s1 else Some (QPixmap_null, s1))
            (\<lambda>(pixmap, s2).
               if \<not> animating (a_shown s2) \<and> hiding s2
               then Some (s2\<lparr>isHidden := True,
                             gifPauseReasons := gifPauseReasons s2 - {MediaPreview}\<rparr>)
               else Some s2))"

definition resizeEvent :: "MediaPreviewWidget \<Rightarrow> MediaPreviewWidget" where
  "resizeEvent s = update s"

definition clipCallback :: "env \<Rightarrow> MediaPreviewWidget \<Rightarrow> Notification \<Rightarrow> MediaPreviewWidget" where
  "clipCallback env s notification =
     (case notification of
        NotificationReinit \<Rightarrow>
          (let s1 = (case gif s of
                       Reader_at r \<Rightarrow> if reader_error r then s\<lparr>gif := Reader_bad\<rparr> else s
                     | _ \<Rightarrow> s);
               s2 = (case gif s1 of
                       Reader_at r \<Rightarrow>
                         if reader_ready r \<and> \<not> reader_started r
                         then (let (sz, s') = currentDimensions env s1
                               in s'\<lparr>gif := Reader_at (reader_start env r (width sz) (height sz))\<rparr>)
                         else s1
                     | _ \<Rightarrow> s1)
           in update s2)
      | NotificationRepaint \<Rightarrow>
          (case gif s of
             Reader_at r \<Rightarrow>
               if \<not> currentDisplayed r
               then (let (rect, s1) = updateArea env s
                     in s1\<lparr>requests := requests s1 @ [UpdateRect rect]\<rparr>)
               else s
           | _ \<Rightarrow> s))"

text \<open>
  The callbacks the widget registers: \<^verbatim>\<open>update()\<close> when a download task finishes
  (constructor, line 36) and on a lottie \<^verbatim>\<open>Information\<close> update,
  \<^verbatim>\<open>update(updateArea())\<close> on a lottie \<^verbatim>\<open>DisplayFrameRequest\<close> (lines 229 to 236),
  and \<^verbatim>\<open>update()\<close> on every step of the \<^verbatim>\<open>_a_shown\<close> animation, the last of which
  leaves the animation idle.
\<close>

definition lottieDisplayFrameRequest :: "env \<Rightarrow> MediaPreviewWidget \<Rightarrow> MediaPreviewWidget" where
  "lottieDisplayFrameRequest env s =
     (let (rect, s1) = updateArea env s in s1\<lparr>requests := requests s1 @ [UpdateRect rect]\<rparr>)"

definition animationCallback :: "bool \<Rightarrow> MediaPreviewWidget \<Rightarrow> MediaPreviewWidget" where
  "animationCallback finished s =
     (if animating (a_shown s)
      then update (if finished then s\<lparr>a_shown := Idle\<rparr> else s)
      else s)"

datatype Event =
  ShowPreviewDocument FileOrigin DocumentData
| ShowPreviewPhoto FileOrigin PhotoData
| HidePreview
| PaintEvent
| ResizeEvent int int
| ClipCallback Notification
| DownloaderTaskFinished
| LottieInformation
| LottieDisplayFrameRequest
| AnimationCallback bool

text \<open>
  One call into the widget. A resize changes \<^verbatim>\<open>width()\<close> and \<^verbatim>\<open>height()\<close> before
  \<^verbatim>\<open>resizeEvent\<close> runs; lottie updates arrive only while a player exists.
\<close>

fun step :: "env \<Rightarrow> Event \<Rightarrow> MediaPreviewWidget \<Rightarrow> MediaPreviewWidget option" where
  "step env (ShowPreviewDocument origin' d) s = showPreview_document env s origin' d"
| "step env (ShowPreviewPhoto origin' p) s = showPreview_photo env s origin' p"
| "step env HidePreview s = hidePreview env s"
| "step env PaintEvent s = paintEvent env s"
| "step env (ResizeEvent w h) s = Some (resizeEvent (s\<lparr>widget_width := w, widget_height := h\<rparr>))"
| "step env (ClipCallback n) s = Some (clipCallback env s n)"
| "step env DownloaderTaskFinished s = Some (update s)"
| "step env LottieInformation s = Some (if lottie s = None then s else update s)"
| "step env LottieDisplayFrameRequest s =
     Some (if lottie s = None then s else lottieDisplayFrameRequest env s)"
| "step env (AnimationCallback finished) s = Some (animationCallback finished s)"

fun run :: "env \<Rightarrow> Event list \<Rightarrow> MediaPreviewWidget \<Rightarrow> MediaPreviewWidget option" where
  "run env [] s = Some s"
| "run env (e # es) s = Option.bind (step env e s) (run env es)"

section \<open>The Linux platform utility\<close>

text \<open>
  The functions of \<^verbatim>\<open>ui_platform_utility_linux.h\<close> act on a painter or on a widget of
  the toolkit. Each takes the state \<open>'w\<close> of everything it could touch and returns it.
\<close>

definition StartTranslucentPaint :: "'w \<Rightarrow> 'p \<Rightarrow> 'e \<Rightarrow> 'w" where
  "StartTranslucentPaint w p e = w"

definition InitOnTopPanel :: "'w \<Rightarrow> 'q \<Rightarrow> 'w" where
  "InitOnTopPanel w panel = w"

definition DeInitOnTopPanel :: "'w \<Rightarrow> 'q \<Rightarrow> 'w" where
  "DeInitOnTopPanel w panel = w"

definition ReInitOnTopPanel :: "'w \<Rightarrow> 'q \<Rightarrow> 'w" where
  "ReInitOnTopPanel w panel = w"

definition UpdateOverlayed :: "'w \<Rightarrow> 'q \<Rightarrow> 'w" where
  "UpdateOverlayed w widget = w"

definition ShowOverAll :: "'w \<Rightarrow> 'q \<Rightarrow> bool \<Rightarrow> 'w" where
  "ShowOverAll w widget canFocus = w"

definition BringToBack :: "'w \<Rightarrow> 'q \<Rightarrow> 'w" where
  "BringToBack w widget = w"

definition UseMainQueueGeneric :: bool where
  "UseMainQueueGeneric = True"

section \<open>Notions used by the properties\<close>





text \<open>A document that \<^verbatim>\<open>showPreview\<close> turns away (lines 107 and 108).\<close>

definition notPreviewable :: "DocumentData \<Rightarrow> bool" where
  "notPreviewable d = ((\<not> isAnimation d \<and> sticker d = None) \<or> isVideoMessage d)"

text \<open>The emoji shown with a document: what \<^verbatim>\<open>fillEmojiString\<close> leaves in the list.\<close>

definition emojiOf :: "env \<Rightarrow> DocumentData \<Rightarrow> EmojiPtr list" where
  "emojiOf env d =
     (case sticker d of
        None \<Rightarrow> []
      | Some st \<Rightarrow>
          (case GetEmojiListFromSet env d of
             Some list \<Rightarrow> take kStickerPreviewEmojiLimit list
           | None \<Rightarrow> (case Emoji_Find env (alt st) of Some emoji \<Rightarrow> [emoji] | None \<Rightarrow> [])))"

text \<open>The size of a previewed sticker: its dimensions fitted to the sticker box.\<close>

definition stickerSize :: "env \<Rightarrow> DocumentData \<Rightarrow> QSize" where
  "stickerSize env d = fitToBox env (dimensions d) (documentBox env d)"

text \<open>
  The state of the bitmap cache agrees with the previewed document: while a document is
  previewed no photo is, and no size is cached; while a sticker is previewed there is no
  clip reader, and a cache marked \<open>CacheThumbLoaded\<close> holds the sticker's blurred
  thumbnail at the sticker's size.
\<close>

definition coherent :: "env \<Rightarrow> MediaPreviewWidget \<Rightarrow> bool" where
  "coherent env s =
     (case document s of
        None \<Rightarrow> True
      | Some d \<Rightarrow>
          photo s = None \<and> isEmpty (cachedSize s) \<and>
          (case sticker d of
             None \<Rightarrow> True
           | Some st \<Rightarrow>
               gif s = Reader_null \<and>
               (if cacheStatus s = CacheThumbLoaded
                then cache s = pixBlurred env (doc_thumbnail d) (origin s)
                                 (width (stickerSize env d)) (height (stickerSize env d))
                else True)))"

text \<open>
  The fields that \<^verbatim>\<open>currentDimensions\<close>, \<^verbatim>\<open>currentImage\<close> and the repaint requests
  leave alone: everything but the bitmap cache, the players and the request log.
\<close>

definition sameControl :: "MediaPreviewWidget \<Rightarrow> MediaPreviewWidget \<Rightarrow> bool" where
  "sameControl s s' =
     (isHidden s' = isHidden s \<and> widget_width s' = widget_width s
      \<and> widget_height s' = widget_height s \<and> gifPauseReasons s' = gifPauseReasons s
      \<and> a_shown s' = a_shown s \<and> hiding s' = hiding s \<and> origin s' = origin s
      \<and> photo s' = photo s \<and> document s' = document s \<and> emojiList s' = emojiList s)"

text \<open>What \<^verbatim>\<open>_cachedSize\<close> holds after a call of \<^verbatim>\<open>currentDimensions\<close>.\<close>

definition cachedSizeAfter :: "env \<Rightarrow> MediaPreviewWidget \<Rightarrow> QSize" where
  "cachedSizeAfter env s = cachedSize (snd (currentDimensions env s))"

text \<open>The size of a previewed photo: its dimensions fitted to the photo box.\<close>

definition photoSize :: "env \<Rightarrow> MediaPreviewWidget \<Rightarrow> PhotoData \<Rightarrow> QSize" where
  "photoSize env s p =
     fitToBox env \<lparr>width = photo_width p, height = photo_height p\<rparr> (photoBox env s)"

text \<open>
  The lottie player that \<^verbatim>\<open>setupLottie\<close> makes for a sticker, and the state in which
  \<^verbatim>\<open>currentImage\<close> asks whether the player is ready: a player is made first when the
  sticker is animated and loaded and there is none yet.
\<close>

definition stickerPlayer :: "env \<Rightarrow> DocumentData \<Rightarrow> SinglePlayer" where
  "stickerPlayer env d =
     Lottie_SinglePlayer env d (QSize_times env (stickerSize env d) (cIntRetinaFactor env))"

definition withPlayer ::
  "env \<Rightarrow> MediaPreviewWidget \<Rightarrow> DocumentData \<Rightarrow> StickerData \<Rightarrow> MediaPreviewWidget" where
  "withPlayer env s d st =
     (if animated st \<and> lottie s = None \<and> doc_loaded d
      then s\<lparr>lottie := Some (stickerPlayer env d)\<rparr>
      else s)"


text \<open>
  The test of line 183: the call returns \<^verbatim>\<open>_cachedSize\<close> at line 184 and computes
  nothing.
\<close>

definition returnsCached :: "MediaPreviewWidget \<Rightarrow> bool" where
  "returnsCached s = (\<not> isEmpty (cachedSize s))"



section \<open>Example values\<close>

definition env0 :: env where
  "env0 = \<lparr>boxVerticalMargin = 8, maxStickerSize = 256, stickerPreviewDuration = 150,
     cIntRetinaFactor = 1, qRound_outside = (\<lambda>x. - 2147483648), ConvertScale = (\<lambda>x. x),
     Emoji_Find = (\<lambda>a. if a = [] then None else Some 7),
     GetEmojiListFromSet =
       (\<lambda>d. case sticker d of
              Some st \<Rightarrow> if animated st then Some [1, 2, 3, 4, 5, 6, 7, 8, 9, 10, 11, 12] else None
            | None \<Rightarrow> None),
     pix = (\<lambda>img orig w h. \<lparr>pm_width = w, pm_height = h, pm_picture = 2 * image_id img\<rparr>),
     pixBlurred = (\<lambda>img orig w h. \<lparr>pm_width = w, pm_height = h, pm_picture = 2 * image_id img + 1\<rparr>),
     MakeReader = (\<lambda>d. Reader_null),
     setAutoplay = (\<lambda>r. r),
     reader_start = (\<lambda>r w h. r\<lparr>reader_started := True\<rparr>),
     reader_current = (\<lambda>r w h ms. \<lparr>pm_width = w, pm_height = h, pm_picture = 0\<rparr>),
     Lottie_SinglePlayer = (\<lambda>d sz. \<lparr>lottie_ready = False, lottie_frame = QImage_null\<rparr>),
     markFrameShown = (\<lambda>l. l),
     isGifPausedAtLeastFor = (\<lambda>rs r. r \<in> rs),
     crl_now = 1000\<rparr>"

text \<open>A hidden widget of 1000 by 800 that previews nothing.\<close>

definition widget0 :: MediaPreviewWidget where
  "widget0 = \<lparr>isHidden = True, widget_width = 1000, widget_height = 800,
     gifPauseReasons = {}, a_shown = Idle, hiding = False, origin = 0,
     photo = None, document = None, gif = Reader_null, lottie = None,
     cacheStatus = CacheNotLoaded, cachedSize = QSize_default, cache = QPixmap_null,
     emojiList = [], requests = []\<rparr>"

text \<open>A loaded photo of 2000 by 1000.\<close>

definition photo0 :: PhotoData where
  "photo0 = \<lparr>photo_width = 2000, photo_height = 1000, photo_loaded = True,
     large = \<lparr>image_id = 1, image_loaded = True\<rparr>,
     photo_thumbnail = \<lparr>image_id = 2, image_loaded = True\<rparr>,
     thumbnailSmall = \<lparr>image_id = 3, image_loaded = True\<rparr>,
     photo_thumbnailInline = None\<rparr>"

text \<open>
  A static sticker of 512 by 512 with a loaded thumbnail and no full image yet, and a
  plain file, which is neither an animation nor a sticker.
\<close>

definition sticker0 :: DocumentData where
  "sticker0 = \<lparr>dimensions = \<lparr>width = 512, height = 512\<rparr>, isAnimation = False,
     sticker = Some \<lparr>alt = ''x'', animated = False\<rparr>, isVideoMessage = False,
     doc_loaded = False, hasThumbnail = True,
     doc_thumbnail = \<lparr>image_id = 4, image_loaded = True\<rparr>,
     doc_thumbnailInline = None, getStickerLarge = None\<rparr>"

definition file0 :: DocumentData where
  "file0 = \<lparr>dimensions = \<lparr>width = 0, height = 0\<rparr>, isAnimation = False,
     sticker = None, isVideoMessage = False,
     doc_loaded = False, hasThumbnail = False,
     doc_thumbnail = \<lparr>image_id = 0, image_loaded = False\<rparr>,
     doc_thumbnailInline = None, getStickerLarge = None\<rparr>"

section \<open>Arithmetic inside the 32-bit range\<close>

lemma int32_id: "- 2147483648 \<le> x \<Longrightarrow> x < 2147483648 \<Longrightarrow> int32 x = x"
  by (simp add: int32_def)

lemma cmul_small:
  assumes "0 \<le> a" "0 \<le> b" "a * b < 2147483648"
  shows "cmul a b = a * b"
proof -
  have "0 \<le> a * b" using assms by simp
  then have "int32 (a * b) = a * b" using assms(3) by (intro int32_id) linarith+
  then show ?thesis by (simp only: cmul_def)
qed

lemma cdiv_pos:
  assumes a: "0 \<le> a" "a < 2147483648" and b: "0 < b"
  shows "cdiv a b = a div b"
proof -
  have "a div b \<le> a div 1" using a b by (intro zdiv_mono2) simp_all
  then have "a div b \<le> a" by simp
  moreover have "0 \<le> a div b" using a b by (simp add: pos_imp_zdiv_nonneg_iff)
  moreover have "sgn a * sgn b * (\<bar>a\<bar> div \<bar>b\<bar>) = a div b"
    using a b by (cases "a = 0") (simp_all add: sgn_if)
  ultimately show ?thesis using a by (simp add: cdiv_def int32_id)
qed

lemma qMax_ge: "1 \<le> qMax a 1"
  by (simp add: qMax_def)

lemma int32_range: "- 2147483648 \<le> int32 x \<and> int32 x < 2147483648"
proof -
  have "0 \<le> (x + 2147483648) mod 4294967296" by simp
  moreover have "(x + 2147483648) mod 4294967296 < 4294967296" by simp
  ultimately show ?thesis unfolding int32_def by linarith
qed

text \<open>A quotient by a divisor of 2 or more is bounded by the quotient of the magnitude.\<close>

lemma cdiv_le_abs:
  assumes "2 \<le> h" "\<bar>x\<bar> \<le> 2147483648"
  shows "cdiv x h \<le> \<bar>x\<bar> div h"
proof -
  define q where "q = \<bar>x\<bar> div \<bar>h\<bar>"
  have h: "\<bar>h\<bar> = h" "sgn h = 1" using assms(1) by simp_all
  have "0 < h" using assms(1) by linarith
  then have q0: "0 \<le> q" unfolding q_def h by (simp add: pos_imp_zdiv_nonneg_iff)
  have "q \<le> \<bar>x\<bar> div 2" unfolding q_def h using assms(1) by (intro zdiv_mono2) simp_all
  then have q1: "q \<le> 1073741824" using assms(2) by linarith
  have "sgn x * sgn h * q = q \<or> sgn x * sgn h * q = - q \<or> sgn x * sgn h * q = 0"
    by (simp add: h sgn_if)
  then have v: "- 2147483648 \<le> sgn x * sgn h * q" "sgn x * sgn h * q < 2147483648"
    "sgn x * sgn h * q \<le> q"
    using q0 q1 by auto
  have "cdiv x h = sgn x * sgn h * q"
    unfolding cdiv_def q_def [symmetric] using v(1,2) by (rule int32_id)
  then show ?thesis using v(3) by (simp add: q_def h)
qed

text \<open>Shrinking one side in proportion never makes it larger.\<close>

lemma shrink_le:
  assumes "1 \<le> w" "1 \<le> bh" "bh < h" "bh * w < 2147483648"
  shows "qMax (cdiv (cmul bh w) h) 1 \<le> w"
proof -
  have m: "cmul bh w = bh * w" using assms by (simp add: cmul_small)
  have "0 \<le> bh * w" using assms by simp
  then have d: "cdiv (bh * w) h = bh * w div h" using assms by (simp add: cdiv_pos)
  have "bh * w \<le> h * w" using assms by (simp add: mult_right_mono)
  then have "bh * w div h \<le> h * w div h" by (rule zdiv_mono1) (use assms in simp)
  then have "bh * w div h \<le> w" using assms by simp
  then show ?thesis using m d assms by (simp add: qMax_def)
qed

text \<open>
  With or without overflow in the product, the shrunk side stays inside the box.
\<close>

lemma shrink_into_box:
  assumes "1 \<le> w" "w \<le> bw" "1 \<le> bh" "bh < h"
  shows "qMax (cdiv (cmul bh w) h) 1 \<le> bw"
proof (cases "bh * w < 2147483648")
  case True
  then have "qMax (cdiv (cmul bh w) h) 1 \<le> w" using assms by (intro shrink_le) simp_all
  then show ?thesis using assms(2) by linarith
next
  case False
  have "bh * w \<le> bh * bw" using assms by (simp add: mult_left_mono)
  then have big: "2147483648 \<le> bh * bw" using False by linarith
  have "2147483648 div bh \<le> bh * bw div bh" using big assms(3) by (intro zdiv_mono1) simp_all
  then have a: "2147483648 div bh \<le> bw" using assms(3) by simp
  have ax: "\<bar>cmul bh w\<bar> \<le> 2147483648"
    using int32_range [of "bh * w"] unfolding cmul_def by linarith
  have "cdiv (cmul bh w) h \<le> \<bar>cmul bh w\<bar> div h"
    using assms(3,4) ax by (intro cdiv_le_abs) linarith+
  also have "\<dots> \<le> 2147483648 div h" using ax assms(3,4) by (intro zdiv_mono1) linarith+
  also have "\<dots> \<le> 2147483648 div bh" using assms(3,4) by (intro zdiv_mono2) linarith+
  finally have "cdiv (cmul bh w) h \<le> bw" using a by linarith
  moreover have "1 \<le> bw" using assms by linarith
  ultimately show ?thesis by (simp add: qMax_def)
qed

section \<open>currentDimensions: the fitted size\<close>

lemma fitToBox_fits:
  assumes "1 \<le> width box" "1 \<le> height box"
  shows "1 \<le> width (fitToBox env r0 box) \<and> width (fitToBox env r0 box) \<le> width box
       \<and> 1 \<le> height (fitToBox env r0 box) \<and> height (fitToBox env r0 box) \<le> height box"
proof -
  define w1 where "w1 = qMax (ConvertScale env (width r0)) 1"
  define h1 where "h1 = qMax (ConvertScale env (height r0)) 1"
  define w2 where "w2 = (if w1 > width box then width box else w1)"
  define h2 where "h2 = (if w1 > width box then qMax (cdiv (cmul (width box) h1) w1) 1 else h1)"
  have w2: "1 \<le> w2" "w2 \<le> width box"
    using assms by (simp_all add: w2_def w1_def qMax_def)
  have h2: "1 \<le> h2" by (simp add: h2_def h1_def qMax_def)
  have eq: "fitToBox env r0 box =
      (if h2 > height box
       then \<lparr>width = qMax (cdiv (cmul (height box) w2) h2) 1, height = height box\<rparr>
       else \<lparr>width = w2, height = h2\<rparr>)"
    by (simp add: fitToBox_def Let_def w1_def h1_def w2_def h2_def)
  show ?thesis
  proof (cases "h2 > height box")
    case True
    have "qMax (cdiv (cmul (height box) w2) h2) 1 \<le> width box"
      using w2 assms True by (intro shrink_into_box) simp_all
    then show ?thesis using True eq assms by (simp add: qMax_ge)
  next
    case False
    then show ?thesis using eq w2 h2 by simp
  qed
qed

lemma currentDimensions_cached:
  "\<not> isEmpty (cachedSize s) \<Longrightarrow> currentDimensions env s = (cachedSize s, s)"
  by (simp add: currentDimensions_def)

lemma currentDimensions_photo:
  "isEmpty (cachedSize s) \<Longrightarrow> photo s = Some p \<Longrightarrow>
   currentDimensions env s =
     (fitToBox env \<lparr>width = photo_width p, height = photo_height p\<rparr> (photoBox env s),
      s\<lparr>cachedSize := fitToBox env \<lparr>width = photo_width p, height = photo_height p\<rparr> (photoBox env s)\<rparr>)"
  by (simp add: currentDimensions_def Let_def)

lemma currentDimensions_document:
  "isEmpty (cachedSize s) \<Longrightarrow> photo s = None \<Longrightarrow> document s = Some d \<Longrightarrow>
   currentDimensions env s = (fitToBox env (documentResult s d) (documentBox env d), s)"
  by (simp add: currentDimensions_def)

lemma currentDimensions_nothing:
  "isEmpty (cachedSize s) \<Longrightarrow> photo s = None \<Longrightarrow> document s = None \<Longrightarrow>
   currentDimensions env s =
     (\<lparr>width = cdiv (pm_width (cache s)) (cIntRetinaFactor env),
       height = cdiv (pm_height (cache s)) (cIntRetinaFactor env)\<rparr>,
      s\<lparr>cachedSize := \<lparr>width = cdiv (pm_width (cache s)) (cIntRetinaFactor env),
                        height = cdiv (pm_height (cache s)) (cIntRetinaFactor env)\<rparr>\<rparr>)"
  by (simp add: currentDimensions_def Let_def)


section \<open>What the reading operations leave alone\<close>

lemma currentDimensions_frame:
  "\<exists>sz c. currentDimensions env s = (sz, s\<lparr>cachedSize := c\<rparr>)"
proof (cases "isEmpty (cachedSize s)")
  case False
  then have "currentDimensions env s = (cachedSize s, s\<lparr>cachedSize := cachedSize s\<rparr>)"
    by (simp add: currentDimensions_cached)
  then show ?thesis by blast
next
  case True
  show ?thesis
  proof (cases "photo s")
    case (Some p)
    then show ?thesis using True currentDimensions_photo by blast
  next
    case None
    show ?thesis
    proof (cases "document s")
      case (Some d)
      then have "currentDimensions env s =
          (fitToBox env (documentResult s d) (documentBox env d), s\<lparr>cachedSize := cachedSize s\<rparr>)"
        using True None by (simp add: currentDimensions_document)
      then show ?thesis by blast
    next
      case N2: None
      then show ?thesis using True None currentDimensions_nothing by blast
    qed
  qed
qed

lemma sameControl_refl: "sameControl s s"
  by (simp add: sameControl_def)

lemma snd_currentDimensions:
  "snd (currentDimensions env s) = s\<lparr>cachedSize := cachedSizeAfter env s\<rparr>"
proof -
  obtain sz c where "currentDimensions env s = (sz, s\<lparr>cachedSize := c\<rparr>)"
    using currentDimensions_frame by blast
  then show ?thesis by (simp add: cachedSizeAfter_def)
qed

lemma setupLottie_Some:
  assumes "document s = Some d"
  shows "setupLottie env s =
     Some (s\<lparr>cachedSize := cachedSizeAfter env s,
             lottie := Some (Lottie_SinglePlayer env d
               (QSize_times env (fst (currentDimensions env s)) (cIntRetinaFactor env)))\<rparr>)"
  using assms by (simp add: setupLottie_def Let_def case_prod_beta snd_currentDimensions)

lemma currentImage_photo_frame:
  "\<exists>pm s'. currentImage_photo env s p = Some (pm, s') \<and> sameControl s s'"
  by (simp add: currentImage_photo_def Let_def case_prod_beta snd_currentDimensions
      sameControl_def split: option.split)

lemma currentImage_clip_frame:
  "\<exists>pm s'. currentImage_clip env s d = Some (pm, s') \<and> sameControl s s'"
  by (simp add: currentImage_clip_def Let_def case_prod_beta snd_currentDimensions
      sameControl_def split: ReaderPointer.split)

lemma currentImage_sticker_frame:
  assumes "document s = Some d"
  shows "\<exists>pm s'. currentImage_sticker env s d st = Some (pm, s') \<and> sameControl s s'"
  by (simp add: currentImage_sticker_def setupLottie_Some [OF assms] Let_def case_prod_beta
      snd_currentDimensions sameControl_def split: option.split)

text \<open>\<^verbatim>\<open>currentImage\<close> always returns, and touches the cache, the players and the log only.\<close>

lemma currentImage_frame:
  "\<exists>pm s'. currentImage env s = Some (pm, s') \<and> sameControl s s'"
proof (cases "document s")
  case (Some d)
  show ?thesis
  proof (cases "sticker d")
    case None
    then show ?thesis using Some currentImage_clip_frame [of env s d]
      by (simp add: currentImage_def)
  next
    case (Some st)
    then show ?thesis using \<open>document s = Some d\<close> currentImage_sticker_frame [of s d env st]
      by (simp add: currentImage_def)
  qed
next
  case None
  show ?thesis
  proof (cases "photo s")
    case (Some p)
    then show ?thesis using None currentImage_photo_frame [of env s p]
      by (simp add: currentImage_def)
  next
    case N2: None
    then show ?thesis using None by (simp add: currentImage_def sameControl_refl)
  qed
qed

section \<open>The operations in closed form\<close>

lemma popBackToLimit_take: "popBackToLimit xs = take kStickerPreviewEmojiLimit xs"
proof (induction xs rule: popBackToLimit.induct)
  case (1 xs)
  show ?case
  proof (cases "length xs > kStickerPreviewEmojiLimit")
    case True
    then have "popBackToLimit xs = popBackToLimit (butlast xs)"
      by (subst popBackToLimit.simps) simp
    also have "\<dots> = take kStickerPreviewEmojiLimit (butlast xs)"
      using True by (rule "1.IH")
    also have "\<dots> = take kStickerPreviewEmojiLimit xs"
      using True by (simp add: take_butlast)
    finally show ?thesis .
  next
    case False
    then have "popBackToLimit xs = xs"
      by (subst popBackToLimit.simps) simp
    then show ?thesis using False by simp
  qed
qed

lemma fillEmojiString_photo:
  "photo s = Some p \<Longrightarrow> fillEmojiString env s = Some (s\<lparr>emojiList := []\<rparr>)"
  by (simp add: fillEmojiString_def)

lemma fillEmojiString_document:
  "photo s = None \<Longrightarrow> document s = Some d \<Longrightarrow>
   fillEmojiString env s = Some (s\<lparr>emojiList := emojiOf env d\<rparr>)"
  by (simp add: fillEmojiString_def emojiOf_def popBackToLimit_take split: option.split)

lemma fillEmojiString_nothing:
  "photo s = None \<Longrightarrow> document s = None \<Longrightarrow> fillEmojiString env s = None"
  by (simp add: fillEmojiString_def)

lemma showPreview_photo_eq:
  "showPreview_photo env s origin' p =
     Some (resetGifAndCache
             ((startShow env s)\<lparr>origin := origin', photo := Some p, document := None,
                                emojiList := []\<rparr>))"
  by (simp add: showPreview_photo_def fillEmojiString_photo)

lemma showPreview_document_eq:
  "\<not> notPreviewable d \<Longrightarrow>
   showPreview_document env s origin' d =
     Some (resetGifAndCache
             ((startShow env s)\<lparr>origin := origin', photo := None, document := Some d,
                                emojiList := emojiOf env d\<rparr>))"
proof -
  assume "\<not> notPreviewable d"
  then have "\<not> ((\<not> isAnimation d \<and> sticker d = None) \<or> isVideoMessage d)"
    by (simp add: notPreviewable_def)
  then have "showPreview_document env s origin' d =
      Option.bind
        (fillEmojiString env
           ((startShow env s)\<lparr>origin := origin', photo := None, document := Some d\<rparr>))
        (\<lambda>s1. Some (resetGifAndCache s1))"
    unfolding showPreview_document_def by (rule if_not_P)
  then show ?thesis by (simp add: fillEmojiString_document)
qed

lemma showPreview_document_rejected:
  "notPreviewable d \<Longrightarrow> showPreview_document env s origin' d = hidePreview env s"
  by (simp add: showPreview_document_def notPreviewable_def)

lemma hidePreview_hidden: "isHidden s \<Longrightarrow> hidePreview env s = Some s"
  by (simp add: hidePreview_def)

lemma hidePreview_visible:
  assumes "\<not> isHidden s"
  shows "\<exists>s1. sameControl s s1 \<and>
           hidePreview env s =
             Some (resetGifAndCache
                     (s1\<lparr>hiding := True, a_shown := Running 1 0 (stickerPreviewDuration env),
                         photo := None, document := None\<rparr>))"
proof (cases "valid (gif s)")
  case True
  obtain pm s' where c: "currentImage env s = Some (pm, s')" "sameControl s s'"
    using currentImage_frame by blast
  have "sameControl s (s'\<lparr>cache := pm\<rparr>)"
    using c(2) by (simp add: sameControl_def)
  moreover have "hidePreview env s =
      Some (resetGifAndCache
              (s'\<lparr>cache := pm, hiding := True,
                  a_shown := Running 1 0 (stickerPreviewDuration env),
                  photo := None, document := None\<rparr>))"
    using assms True c(1) by (simp add: hidePreview_def)
  ultimately show ?thesis by blast
next
  case False
  then have "hidePreview env s =
      Some (resetGifAndCache
              (s\<lparr>hiding := True, a_shown := Running 1 0 (stickerPreviewDuration env),
                 photo := None, document := None\<rparr>))"
    using assms by (simp add: hidePreview_def)
  then show ?thesis using sameControl_refl by blast
qed

lemma startShow_fields:
  "photo (startShow env s) = photo s"
  "document (startShow env s) = document s"
  "cache (startShow env s) = QPixmap_null"
  "widget_width (startShow env s) = widget_width s"
  "widget_height (startShow env s) = widget_height s"
  by (simp_all add: startShow_def update_def Let_def)

lemma startShow_starts:
  assumes "isHidden s \<or> animating (a_shown s)"
  shows "\<not> isHidden (startShow env s)" "\<not> hiding (startShow env s)"
    "a_shown (startShow env s) = Running 0 1 (stickerPreviewDuration env)"
    "gifPauseReasons (startShow env s) =
       (if isHidden s then insert MediaPreview (gifPauseReasons s) else gifPauseReasons s)"
  using assms by (auto simp: startShow_def Let_def)

text \<open>On a visible widget whose animation is idle, \<^verbatim>\<open>startShow\<close> leaves \<^verbatim>\<open>_hiding\<close> as it is.\<close>

lemma startShow_shown:
  assumes "\<not> isHidden s" "\<not> animating (a_shown s)"
  shows "startShow env s = update (s\<lparr>cache := QPixmap_null\<rparr>)"
  using assms by (simp add: startShow_def Let_def)

text \<open>
  \<^verbatim>\<open>paintEvent\<close> always returns. It hides the widget exactly when the animation is over
  and \<^verbatim>\<open>_hiding\<close> is set; apart from that it touches the cache and the players only.
\<close>

lemma paintEvent_eq:
  "\<exists>s0 s1. (s0 = s \<or> (\<exists>l. s0 = s\<lparr>lottie := Some l\<rparr>))
     \<and> (s1 = s0 \<or> (\<exists>pm. currentImage env s0 = Some (pm, s1)))
     \<and> sameControl s s1 \<and>
     paintEvent env s =
       Some (if \<not> animating (a_shown s) \<and> hiding s
             then s1\<lparr>isHidden := True, gifPauseReasons := gifPauseReasons s - {MediaPreview}\<rparr>
             else s1)"
proof -
  define s0 where "s0 = (case lottie s of
      Some l \<Rightarrow> if lottie_ready l then s\<lparr>lottie := Some (markFrameShown env l)\<rparr> else s
    | None \<Rightarrow> s)"
  define frame where "frame = (case lottie s of
      Some l \<Rightarrow> if lottie_ready l then lottie_frame (markFrameShown env l) else QImage_null
    | None \<Rightarrow> QImage_null)"
  have s0: "sameControl s s0"
    by (simp add: s0_def sameControl_def split: option.split)
  have s0': "s0 = s \<or> (\<exists>l. s0 = s\<lparr>lottie := Some l\<rparr>)"
    by (auto simp: s0_def split: option.split)
  obtain pm s' where c: "currentImage env s0 = Some (pm, s')" "sameControl s0 s'"
    using currentImage_frame by blast
  define s1 where "s1 = (if frame = QImage_null then s' else s0)"
  have s1: "sameControl s s1"
    using s0 c(2) by (simp add: s1_def sameControl_def)
  have s1': "s1 = s0 \<or> (\<exists>pm. currentImage env s0 = Some (pm, s1))"
    using c(1) by (simp add: s1_def)
  have first: "(case lottie s of
          Some l \<Rightarrow>
            if lottie_ready l
            then Some (lottie_frame (markFrameShown env l),
                       s\<lparr>lottie := Some (markFrameShown env l)\<rparr>)
            else Some (QImage_null, s)
        | None \<Rightarrow> Some (QImage_null, s)) = Some (frame, s0)"
    by (simp add: frame_def s0_def split: option.split)
  have "paintEvent env s =
      Some (if \<not> animating (a_shown s1) \<and> hiding s1
            then s1\<lparr>isHidden := True, gifPauseReasons := gifPauseReasons s1 - {MediaPreview}\<rparr>
            else s1)"
    unfolding paintEvent_def first using c(1) by (simp add: s1_def)
  moreover have "a_shown s1 = a_shown s" "hiding s1 = hiding s"
    "gifPauseReasons s1 = gifPauseReasons s"
    using s1 by (simp_all add: sameControl_def)
  ultimately have "paintEvent env s =
       Some (if \<not> animating (a_shown s) \<and> hiding s
             then s1\<lparr>isHidden := True, gifPauseReasons := gifPauseReasons s - {MediaPreview}\<rparr>
             else s1)"
    by simp
  with s0' s1' s1 show ?thesis by blast
qed

section \<open>Events, one by one\<close>

lemma resetGifAndCache_fields:
  "photo (resetGifAndCache s) = photo s"
  "document (resetGifAndCache s) = document s"
  "isHidden (resetGifAndCache s) = isHidden s"
  "hiding (resetGifAndCache s) = hiding s"
  "a_shown (resetGifAndCache s) = a_shown s"
  "gifPauseReasons (resetGifAndCache s) = gifPauseReasons s"
  "origin (resetGifAndCache s) = origin s"
  "emojiList (resetGifAndCache s) = emojiList s"
  "cache (resetGifAndCache s) = cache s"
  "lottie (resetGifAndCache s) = None"
  "gif (resetGifAndCache s) = Reader_null"
  "cacheStatus (resetGifAndCache s) = CacheNotLoaded"
  "cachedSize (resetGifAndCache s) = QSize_default"
  by (simp_all add: resetGifAndCache_def)

lemma isEmpty_default: "isEmpty QSize_default"
  by (simp add: isEmpty_def QSize_default_def)

lemma updateArea_sameControl: "sameControl s (snd (updateArea env s))"
  by (simp add: updateArea_def case_prod_beta snd_currentDimensions sameControl_def)

lemma lottieDisplayFrameRequest_sameControl:
  "sameControl s (lottieDisplayFrameRequest env s)"
  using updateArea_sameControl [of s env]
  by (simp add: lottieDisplayFrameRequest_def case_prod_beta sameControl_def)

lemma clipCallback_sameControl: "sameControl s (clipCallback env s n)"
proof (cases n)
  case NotificationReinit
  then show ?thesis
    by (simp add: clipCallback_def Let_def case_prod_beta snd_currentDimensions update_def
        sameControl_def split: ReaderPointer.split)
next
  case NotificationRepaint
  then show ?thesis
    using updateArea_sameControl [of s env]
    by (simp add: clipCallback_def case_prod_beta sameControl_def split: ReaderPointer.split)
qed

lemma animationCallback_fields:
  "photo (animationCallback f s) = photo s"
  "document (animationCallback f s) = document s"
  "isHidden (animationCallback f s) = isHidden s"
  "hiding (animationCallback f s) = hiding s"
  "gifPauseReasons (animationCallback f s) = gifPauseReasons s"
  by (simp_all add: animationCallback_def update_def)

text \<open>Every event returns; the two previewed-item references after it.\<close>

lemma step_items:
  "\<exists>s'. step env e s = Some s' \<and>
     (case e of
        ShowPreviewPhoto origin' p \<Rightarrow> photo s' = Some p \<and> document s' = None
      | ShowPreviewDocument origin' d \<Rightarrow>
          if notPreviewable d
          then (if isHidden s then s' = s else photo s' = None \<and> document s' = None)
          else photo s' = None \<and> document s' = Some d
      | HidePreview \<Rightarrow>
          if isHidden s then s' = s else photo s' = None \<and> document s' = None
      | _ \<Rightarrow> photo s' = photo s \<and> document s' = document s)"
proof (cases e)
  case (ShowPreviewDocument origin' d)
  show ?thesis
  proof (cases "notPreviewable d")
    case True
    show ?thesis
    proof (cases "isHidden s")
      case h: True
      then show ?thesis using ShowPreviewDocument True
        by (simp add: showPreview_document_rejected hidePreview_hidden)
    next
      case h: False
      then obtain s1 where "hidePreview env s =
             Some (resetGifAndCache
                     (s1\<lparr>hiding := True, a_shown := Running 1 0 (stickerPreviewDuration env),
                         photo := None, document := None\<rparr>))"
        using hidePreview_visible by blast
      then show ?thesis using ShowPreviewDocument True h
        by (simp add: showPreview_document_rejected resetGifAndCache_fields)
    qed
  next
    case False
    then show ?thesis using ShowPreviewDocument
      by (simp add: showPreview_document_eq resetGifAndCache_fields)
  qed
next
  case (ShowPreviewPhoto origin' p)
  then show ?thesis by (simp add: showPreview_photo_eq resetGifAndCache_fields)
next
  case HidePreview
  show ?thesis
  proof (cases "isHidden s")
    case True
    then show ?thesis using HidePreview by (simp add: hidePreview_hidden)
  next
    case False
    then obtain s1 where "hidePreview env s =
           Some (resetGifAndCache
                   (s1\<lparr>hiding := True, a_shown := Running 1 0 (stickerPreviewDuration env),
                       photo := None, document := None\<rparr>))"
      using hidePreview_visible by blast
    then show ?thesis using HidePreview False by (simp add: resetGifAndCache_fields)
  qed
next
  case PaintEvent
  obtain s0 s1 where "sameControl s s1" "paintEvent env s =
       Some (if \<not> animating (a_shown s) \<and> hiding s
             then s1\<lparr>isHidden := True, gifPauseReasons := gifPauseReasons s - {MediaPreview}\<rparr>
             else s1)"
    using paintEvent_eq by blast
  then show ?thesis using PaintEvent by (simp add: sameControl_def)
next
  case (ResizeEvent w h)
  then show ?thesis by (simp add: resizeEvent_def update_def)
next
  case (ClipCallback n)
  then show ?thesis using clipCallback_sameControl [of s env n] by (simp add: sameControl_def)
next
  case DownloaderTaskFinished
  then show ?thesis by (simp add: update_def)
next
  case LottieInformation
  then show ?thesis by (simp add: update_def)
next
  case LottieDisplayFrameRequest
  then show ?thesis using lottieDisplayFrameRequest_sameControl [of s env]
    by (simp add: sameControl_def)
next
  case (AnimationCallback f)
  then show ?thesis by (simp add: animationCallback_fields)
qed

lemma step_total: "\<exists>s'. step env e s = Some s'"
  using step_items by blast



section \<open>showPreview and hidePreview\<close>

text \<open>
  C9. Calling \<^verbatim>\<open>hidePreview\<close> while the widget is hidden is a no-op: it returns at
  once and the state is the one before the call, field by field (the log of requests
  included).
\<close>

theorem hidePreview_hidden_noop:
  "isHidden s \<Longrightarrow> hidePreview env s = Some s"
  by (simp add: hidePreview_def)

theorem hidePreview_hidden_noop_witness:
  "isHidden widget0 \<and> hidePreview env0 widget0 = Some widget0"
proof -
  have h: "isHidden widget0" by (simp add: widget0_def)
  from hidePreview_hidden_noop [OF h] h show ?thesis by simp
qed

text \<open>
  C2, as amended. A call of \<^verbatim>\<open>showPreview\<close> with a document that is neither an
  animation nor a sticker, or is a video message, is a call of \<^verbatim>\<open>hidePreview\<close>: on a
  hidden widget nothing changes, on a visible one the fade-out starts and both
  previewed-item references end up null. With any other document the show is started
  (\<^verbatim>\<open>startShow\<close> decides visibility, animation, \<^verbatim>\<open>_hiding\<close> and the pause reason, and
  clears the bitmap), \<^verbatim>\<open>_document\<close> is that document, \<^verbatim>\<open>_photo\<close> is null, the emoji
  list is the document's, both players are gone and the cache state is reset.
\<close>

theorem showPreview_document_cases:
  "(if notPreviewable d
    then showPreview_document env s origin' d = hidePreview env s
       \<and> (if isHidden s
          then hidePreview env s = Some s
          else \<exists>s'. hidePreview env s = Some s' \<and> hiding s'
                 \<and> a_shown s' = Running 1 0 (stickerPreviewDuration env)
                 \<and> photo s' = None \<and> document s' = None)
    else \<exists>s'. showPreview_document env s origin' d = Some s'
           \<and> isHidden s' = isHidden (startShow env s)
           \<and> a_shown s' = a_shown (startShow env s)
           \<and> hiding s' = hiding (startShow env s)
           \<and> gifPauseReasons s' = gifPauseReasons (startShow env s)
           \<and> requests s' = requests (startShow env s)
           \<and> origin s' = origin' \<and> document s' = Some d \<and> photo s' = None
           \<and> emojiList s' = emojiOf env d
           \<and> gif s' = Reader_null \<and> lottie s' = None
           \<and> cache s' = QPixmap_null \<and> cacheStatus s' = CacheNotLoaded
           \<and> cachedSize s' = QSize_default)"
proof (cases "notPreviewable d")
  case True
  have eq: "showPreview_document env s origin' d = hidePreview env s"
    using True by (rule showPreview_document_rejected)
  show ?thesis
  proof (cases "isHidden s")
    case h: True
    then show ?thesis using True eq by (simp add: hidePreview_hidden)
  next
    case h: False
    then obtain s1 where "hidePreview env s =
           Some (resetGifAndCache
                   (s1\<lparr>hiding := True, a_shown := Running 1 0 (stickerPreviewDuration env),
                       photo := None, document := None\<rparr>))"
      using hidePreview_visible by blast
    then show ?thesis using True eq h by (simp add: resetGifAndCache_fields)
  qed
next
  case False
  then show ?thesis
    by (simp add: showPreview_document_eq resetGifAndCache_def startShow_fields)
qed

text \<open>
  The theorem at the hidden widget: the plain file is turned away and nothing changes;
  the sticker is shown, with the emoji found for its alt text.
\<close>

theorem showPreview_document_cases_witness:
  "notPreviewable file0 \<and> isHidden widget0
   \<and> showPreview_document env0 widget0 1 file0 = Some widget0
   \<and> \<not> notPreviewable sticker0
   \<and> map_option document (showPreview_document env0 widget0 1 sticker0) = Some (Some sticker0)
   \<and> map_option emojiList (showPreview_document env0 widget0 1 sticker0) = Some [7]
   \<and> map_option isHidden (showPreview_document env0 widget0 1 sticker0) = Some False"
proof -
  have a: "notPreviewable file0" by (simp add: notPreviewable_def file0_def)
  have h: "isHidden widget0" by (simp add: widget0_def)
  have b: "\<not> notPreviewable sticker0" by (simp add: notPreviewable_def sticker0_def)
  have e: "emojiOf env0 sticker0 = [7]" by (simp add: emojiOf_def env0_def sticker0_def)
  have v: "\<not> isHidden (startShow env0 widget0)"
    by (simp add: startShow_def widget0_def Let_def)
  from showPreview_document_cases [of file0 env0 widget0 1] a h
  have "showPreview_document env0 widget0 1 file0 = Some widget0" by simp
  moreover from showPreview_document_cases [of sticker0 env0 widget0 1] b e v
  have "map_option document (showPreview_document env0 widget0 1 sticker0) = Some (Some sticker0)
      \<and> map_option emojiList (showPreview_document env0 widget0 1 sticker0) = Some [7]
      \<and> map_option isHidden (showPreview_document env0 widget0 1 sticker0) = Some False"
    by auto
  ultimately show ?thesis using a h b by simp
qed

text \<open>
  C2 as stated fails on a hidden widget that still holds a photo. Such a widget arises
  when a photo is shown again after the fade-out has ended and before the next paint:
  \<^verbatim>\<open>startShow\<close> finds the widget visible and idle and leaves \<^verbatim>\<open>_hiding\<close> set, so the
  paint hides the widget while \<^verbatim>\<open>_photo\<close> is set. \<^verbatim>\<open>showPreview\<close> with the plain file
  then returns from \<^verbatim>\<open>hidePreview\<close> at once, and \<^verbatim>\<open>_photo\<close> stays set.
\<close>

theorem showPreview_document_keeps_photo:
  "notPreviewable file0
   \<and> map_option isHidden
       (run env0 [ShowPreviewPhoto 1 photo0, HidePreview, AnimationCallback True,
                  ShowPreviewPhoto 1 photo0, PaintEvent] widget0) = Some True
   \<and> map_option photo
       (run env0 [ShowPreviewPhoto 1 photo0, HidePreview, AnimationCallback True,
                  ShowPreviewPhoto 1 photo0, PaintEvent, ShowPreviewDocument 1 file0] widget0)
     = Some (Some photo0)"
  by (simp add: env0_def widget0_def photo0_def file0_def notPreviewable_def
      showPreview_photo_def showPreview_document_def hidePreview_def startShow_def
      fillEmojiString_def resetGifAndCache_def paintEvent_def currentImage_def
      currentImage_photo_def currentDimensions_def fitToBox_def photoBox_def
      animationCallback_def update_def isEmpty_def QSize_default_def qMax_def cdiv_def
      cmul_def csub_def int32_def QPixmap_null_def Let_def)



section \<open>Fading in and out\<close>

lemma startShow_visible: "\<not> isHidden (startShow env s)"
  by (simp add: startShow_def update_def Let_def)

lemma startShow_reasons:
  "gifPauseReasons (startShow env s) =
     (if isHidden s then insert MediaPreview (gifPauseReasons s) else gifPauseReasons s)"
  by (simp add: startShow_def update_def Let_def)

text \<open>Visibility and the pause reasons after an event: only a paint can hide the widget.\<close>

lemma step_visibility:
  "\<exists>s'. step env e s = Some s' \<and>
     (if e = PaintEvent \<and> \<not> animating (a_shown s) \<and> hiding s
      then isHidden s' \<and> gifPauseReasons s' = gifPauseReasons s - {MediaPreview}
      else (isHidden s' \<longrightarrow> isHidden s) \<and> gifPauseReasons s \<subseteq> gifPauseReasons s')"
proof (cases e)
  case (ShowPreviewDocument origin' d)
  show ?thesis
  proof (cases "notPreviewable d")
    case True
    show ?thesis
    proof (cases "isHidden s")
      case h: True
      then show ?thesis using ShowPreviewDocument True
        by (simp add: showPreview_document_rejected hidePreview_hidden)
    next
      case h: False
      then obtain s1 where "sameControl s s1" "hidePreview env s =
             Some (resetGifAndCache
                     (s1\<lparr>hiding := True, a_shown := Running 1 0 (stickerPreviewDuration env),
                         photo := None, document := None\<rparr>))"
        using hidePreview_visible by blast
      then show ?thesis using ShowPreviewDocument True h
        by (simp add: showPreview_document_rejected resetGifAndCache_fields sameControl_def)
    qed
  next
    case False
    then show ?thesis using ShowPreviewDocument
      by (auto simp: showPreview_document_eq resetGifAndCache_fields startShow_visible
          startShow_reasons)
  qed
next
  case (ShowPreviewPhoto origin' p)
  then show ?thesis
    by (auto simp: showPreview_photo_eq resetGifAndCache_fields startShow_visible
        startShow_reasons)
next
  case HidePreview
  show ?thesis
  proof (cases "isHidden s")
    case True
    then show ?thesis using HidePreview by (simp add: hidePreview_hidden)
  next
    case False
    then obtain s1 where "sameControl s s1" "hidePreview env s =
           Some (resetGifAndCache
                   (s1\<lparr>hiding := True, a_shown := Running 1 0 (stickerPreviewDuration env),
                       photo := None, document := None\<rparr>))"
      using hidePreview_visible by blast
    then show ?thesis using HidePreview False
      by (simp add: resetGifAndCache_fields sameControl_def)
  qed
next
  case PaintEvent
  obtain s0 s1 where "sameControl s s1" "paintEvent env s =
       Some (if \<not> animating (a_shown s) \<and> hiding s
             then s1\<lparr>isHidden := True, gifPauseReasons := gifPauseReasons s - {MediaPreview}\<rparr>
             else s1)"
    using paintEvent_eq by blast
  then show ?thesis using PaintEvent by (simp add: sameControl_def)
next
  case (ResizeEvent w h)
  then show ?thesis by (simp add: resizeEvent_def update_def)
next
  case (ClipCallback n)
  then show ?thesis using clipCallback_sameControl [of s env n] by (simp add: sameControl_def)
next
  case DownloaderTaskFinished
  then show ?thesis by (simp add: update_def)
next
  case LottieInformation
  then show ?thesis by (simp add: update_def)
next
  case LottieDisplayFrameRequest
  then show ?thesis using lottieDisplayFrameRequest_sameControl [of s env]
    by (simp add: sameControl_def)
next
  case (AnimationCallback f)
  then show ?thesis by (simp add: animationCallback_fields)
qed

text \<open>
  C5. \<^verbatim>\<open>startShow\<close> on a hidden or still animating widget clears the cached bitmap,
  clears \<^verbatim>\<open>_hiding\<close> and starts \<^verbatim>\<open>_a_shown\<close> from 0 to 1; the widget is visible
  afterwards, and the MediaPreview pause reason has been enabled if it was hidden.
  \<^verbatim>\<open>hidePreview\<close> on a visible widget sets \<^verbatim>\<open>_hiding\<close> and starts \<^verbatim>\<open>_a_shown\<close> from 1
  to 0 without hiding the widget or touching the pause reasons. \<^verbatim>\<open>paintEvent\<close> hides
  the widget and disables the pause reason when \<^verbatim>\<open>_hiding\<close> is set and the animation is
  no longer running, and leaves both alone otherwise. No other event hides a visible
  widget or disables the pause reason.
\<close>

theorem fade_in_and_out:
  "(isHidden s \<or> animating (a_shown s) \<longrightarrow>
      cache (startShow env s) = QPixmap_null
      \<and> \<not> hiding (startShow env s)
      \<and> a_shown (startShow env s) = Running 0 1 (stickerPreviewDuration env)
      \<and> \<not> isHidden (startShow env s)
      \<and> gifPauseReasons (startShow env s) =
          (if isHidden s then insert MediaPreview (gifPauseReasons s) else gifPauseReasons s))
   \<and> (\<not> isHidden s \<longrightarrow>
        (\<exists>s'. hidePreview env s = Some s' \<and> hiding s'
           \<and> a_shown s' = Running 1 0 (stickerPreviewDuration env)
           \<and> \<not> isHidden s' \<and> gifPauseReasons s' = gifPauseReasons s))
   \<and> (\<exists>s'. paintEvent env s = Some s'
        \<and> (if \<not> animating (a_shown s) \<and> hiding s
           then isHidden s' \<and> gifPauseReasons s' = gifPauseReasons s - {MediaPreview}
           else isHidden s' = isHidden s \<and> gifPauseReasons s' = gifPauseReasons s))
   \<and> (\<forall>e s'. step env e s = Some s'
          \<and> ((\<not> isHidden s \<and> isHidden s')
             \<or> (MediaPreview \<in> gifPauseReasons s \<and> MediaPreview \<notin> gifPauseReasons s'))
        \<longrightarrow> e = PaintEvent \<and> \<not> animating (a_shown s) \<and> hiding s)"
proof -
  have a: "isHidden s \<or> animating (a_shown s) \<longrightarrow>
      cache (startShow env s) = QPixmap_null
      \<and> \<not> hiding (startShow env s)
      \<and> a_shown (startShow env s) = Running 0 1 (stickerPreviewDuration env)
      \<and> \<not> isHidden (startShow env s)
      \<and> gifPauseReasons (startShow env s) =
          (if isHidden s then insert MediaPreview (gifPauseReasons s) else gifPauseReasons s)"
    using startShow_starts [of s env] by (simp add: startShow_fields)
  have b: "\<not> isHidden s \<longrightarrow>
        (\<exists>s'. hidePreview env s = Some s' \<and> hiding s'
           \<and> a_shown s' = Running 1 0 (stickerPreviewDuration env)
           \<and> \<not> isHidden s' \<and> gifPauseReasons s' = gifPauseReasons s)"
  proof
    assume h: "\<not> isHidden s"
    then obtain s1 where "sameControl s s1" "hidePreview env s =
           Some (resetGifAndCache
                   (s1\<lparr>hiding := True, a_shown := Running 1 0 (stickerPreviewDuration env),
                       photo := None, document := None\<rparr>))"
      using hidePreview_visible by blast
    then show "\<exists>s'. hidePreview env s = Some s' \<and> hiding s'
           \<and> a_shown s' = Running 1 0 (stickerPreviewDuration env)
           \<and> \<not> isHidden s' \<and> gifPauseReasons s' = gifPauseReasons s"
      using h by (simp add: resetGifAndCache_fields sameControl_def)
  qed
  have c: "\<exists>s'. paintEvent env s = Some s'
        \<and> (if \<not> animating (a_shown s) \<and> hiding s
           then isHidden s' \<and> gifPauseReasons s' = gifPauseReasons s - {MediaPreview}
           else isHidden s' = isHidden s \<and> gifPauseReasons s' = gifPauseReasons s)"
  proof -
    obtain s0 s1 where "sameControl s s1" "paintEvent env s =
       Some (if \<not> animating (a_shown s) \<and> hiding s
             then s1\<lparr>isHidden := True, gifPauseReasons := gifPauseReasons s - {MediaPreview}\<rparr>
             else s1)"
      using paintEvent_eq by blast
    then show ?thesis by (simp add: sameControl_def)
  qed
  have d: "\<forall>e s'. step env e s = Some s'
          \<and> ((\<not> isHidden s \<and> isHidden s')
             \<or> (MediaPreview \<in> gifPauseReasons s \<and> MediaPreview \<notin> gifPauseReasons s'))
        \<longrightarrow> e = PaintEvent \<and> \<not> animating (a_shown s) \<and> hiding s"
  proof (intro allI impI)
    fix e s'
    assume p: "step env e s = Some s'
          \<and> ((\<not> isHidden s \<and> isHidden s')
             \<or> (MediaPreview \<in> gifPauseReasons s \<and> MediaPreview \<notin> gifPauseReasons s'))"
    show "e = PaintEvent \<and> \<not> animating (a_shown s) \<and> hiding s"
    proof (rule ccontr)
      assume n: "\<not> (e = PaintEvent \<and> \<not> animating (a_shown s) \<and> hiding s)"
      then have "(isHidden s' \<longrightarrow> isHidden s) \<and> gifPauseReasons s \<subseteq> gifPauseReasons s'"
        using step_visibility [of env e s] p by auto
      then show False using p by auto
    qed
  qed
  from a b c d show ?thesis by blast
qed

text \<open>
  The theorem along one fade: the hidden widget is shown with a photo, hidden again,
  the animation ends, and the paint after that hides the widget.
\<close>

theorem fade_in_and_out_witness:
  "isHidden widget0
   \<and> a_shown (startShow env0 widget0) = Running 0 1 150
   \<and> MediaPreview \<in> gifPauseReasons (startShow env0 widget0)
   \<and> map_option isHidden
       (run env0 [ShowPreviewPhoto 1 photo0, HidePreview, AnimationCallback True] widget0)
     = Some False
   \<and> map_option isHidden
       (run env0 [ShowPreviewPhoto 1 photo0, HidePreview, AnimationCallback True, PaintEvent]
          widget0)
     = Some True"
proof -
  have h: "isHidden widget0" by (simp add: widget0_def)
  have d: "stickerPreviewDuration env0 = 150" by (simp add: env0_def)
  have g: "gifPauseReasons widget0 = {}" by (simp add: widget0_def)
  from fade_in_and_out [of widget0 env0] h d g
  have "a_shown (startShow env0 widget0) = Running 0 1 150
      \<and> MediaPreview \<in> gifPauseReasons (startShow env0 widget0)"
    by simp
  moreover have "map_option isHidden
       (run env0 [ShowPreviewPhoto 1 photo0, HidePreview, AnimationCallback True] widget0)
     = Some False
   \<and> map_option isHidden
       (run env0 [ShowPreviewPhoto 1 photo0, HidePreview, AnimationCallback True, PaintEvent]
          widget0)
     = Some True"
    by (simp add: env0_def widget0_def photo0_def
      showPreview_photo_def hidePreview_def startShow_def
      fillEmojiString_def resetGifAndCache_def paintEvent_def currentImage_def
      animationCallback_def update_def QSize_default_def QPixmap_null_def Let_def)
  ultimately show ?thesis using h by simp
qed

section \<open>The emoji list\<close>

text \<open>
  C7. \<^verbatim>\<open>fillEmojiString\<close> returns whenever a photo or a document is previewed, and
  the list it leaves has at most 10 entries (\<open>kStickerPreviewEmojiLimit\<close>): none for a
  photo and for a document that is no sticker, the first 10 of the set's list for a
  sticker that has one (longer lists lose their last entries), and otherwise at most
  the one emoji found for the sticker's alt text.
\<close>

theorem fillEmojiString_limit:
  "kStickerPreviewEmojiLimit = 10
   \<and> (fillEmojiString env s = None \<longleftrightarrow> photo s = None \<and> document s = None)
   \<and> (\<forall>s'. fillEmojiString env s = Some s' \<longrightarrow>
        length (emojiList s') \<le> kStickerPreviewEmojiLimit
        \<and> s' = s\<lparr>emojiList := emojiList s'\<rparr>
        \<and> (photo s \<noteq> None \<longrightarrow> emojiList s' = [])
        \<and> (\<forall>d. photo s = None \<and> document s = Some d \<longrightarrow>
             (case sticker d of
                None \<Rightarrow> emojiList s' = []
              | Some st \<Rightarrow>
                  (case GetEmojiListFromSet env d of
                     Some list \<Rightarrow>
                       emojiList s' = popBackToLimit list
                       \<and> emojiList s' = take 10 list
                   | None \<Rightarrow>
                       (case Emoji_Find env (alt st) of
                          Some emoji \<Rightarrow> emojiList s' = [emoji]
                        | None \<Rightarrow> emojiList s' = [])))))"
proof -
  have k: "kStickerPreviewEmojiLimit = 10" by (simp add: kStickerPreviewEmojiLimit_def)
  have n: "fillEmojiString env s = None \<longleftrightarrow> photo s = None \<and> document s = None"
    by (cases "photo s"; cases "document s")
       (simp_all add: fillEmojiString_photo fillEmojiString_document fillEmojiString_nothing)
  have len: "length (emojiOf env d) \<le> kStickerPreviewEmojiLimit" for d
    by (simp add: emojiOf_def k split: option.split)
  have r: "\<forall>s'. fillEmojiString env s = Some s' \<longrightarrow>
        length (emojiList s') \<le> kStickerPreviewEmojiLimit
        \<and> s' = s\<lparr>emojiList := emojiList s'\<rparr>
        \<and> (photo s \<noteq> None \<longrightarrow> emojiList s' = [])
        \<and> (\<forall>d. photo s = None \<and> document s = Some d \<longrightarrow>
             (case sticker d of
                None \<Rightarrow> emojiList s' = []
              | Some st \<Rightarrow>
                  (case GetEmojiListFromSet env d of
                     Some list \<Rightarrow>
                       emojiList s' = popBackToLimit list
                       \<and> emojiList s' = take 10 list
                   | None \<Rightarrow>
                       (case Emoji_Find env (alt st) of
                          Some emoji \<Rightarrow> emojiList s' = [emoji]
                        | None \<Rightarrow> emojiList s' = []))))"
  proof (intro allI impI)
    fix s'
    assume f: "fillEmojiString env s = Some s'"
    show "length (emojiList s') \<le> kStickerPreviewEmojiLimit
        \<and> s' = s\<lparr>emojiList := emojiList s'\<rparr>
        \<and> (photo s \<noteq> None \<longrightarrow> emojiList s' = [])
        \<and> (\<forall>d. photo s = None \<and> document s = Some d \<longrightarrow>
             (case sticker d of
                None \<Rightarrow> emojiList s' = []
              | Some st \<Rightarrow>
                  (case GetEmojiListFromSet env d of
                     Some list \<Rightarrow>
                       emojiList s' = popBackToLimit list
                       \<and> emojiList s' = take 10 list
                   | None \<Rightarrow>
                       (case Emoji_Find env (alt st) of
                          Some emoji \<Rightarrow> emojiList s' = [emoji]
                        | None \<Rightarrow> emojiList s' = []))))"
    proof (cases "photo s")
      case (Some p)
      then have "s' = s\<lparr>emojiList := []\<rparr>" using f by (simp add: fillEmojiString_photo)
      then show ?thesis using Some by simp
    next
      case None
      then obtain d where d: "document s = Some d" using f n by (cases "document s") auto
      then have "s' = s\<lparr>emojiList := emojiOf env d\<rparr>"
        using f None by (simp add: fillEmojiString_document)
      then show ?thesis using None d len [of d]
        by (simp add: emojiOf_def popBackToLimit_take k split: option.split)
    qed
  qed
  from k n r show ?thesis by blast
qed

text \<open>
  The theorem at an animated sticker whose set lists twelve emoji: the first ten are
  kept.
\<close>

theorem fillEmojiString_limit_witness:
  "map_option emojiList
     (fillEmojiString env0
        (widget0\<lparr>document := Some (sticker0\<lparr>sticker := Some \<lparr>alt = ''x'', animated = True\<rparr>\<rparr>)\<rparr>))
     = Some [1, 2, 3, 4, 5, 6, 7, 8, 9, 10]
   \<and> map_option emojiList (fillEmojiString env0 (widget0\<lparr>photo := Some photo0\<rparr>)) = Some []
   \<and> fillEmojiString env0 widget0 = None"
proof -
  let ?d = "sticker0\<lparr>sticker := Some \<lparr>alt = ''x'', animated = True\<rparr>\<rparr>"
  let ?s = "widget0\<lparr>document := Some ?d\<rparr>"
  have p: "photo ?s = None" "document ?s = Some ?d" by (simp_all add: widget0_def)
  have g: "GetEmojiListFromSet env0 ?d = Some [1, 2, 3, 4, 5, 6, 7, 8, 9, 10, 11, 12]"
    by (simp add: env0_def sticker0_def)
  have st: "sticker ?d = Some \<lparr>alt = ''x'', animated = True\<rparr>" by simp
  note total = fillEmojiString_limit [of env0 ?s, THEN conjunct2, THEN conjunct1]
  note lists = fillEmojiString_limit [of env0 ?s, THEN conjunct2, THEN conjunct2]
  obtain s' where s': "fillEmojiString env0 ?s = Some s'"
    using total p by (cases "fillEmojiString env0 ?s") auto
  then have "emojiList s' = take 10 [1, 2, 3, 4, 5, 6, 7, 8, 9, 10, 11, 12]"
    using lists p g st by auto
  then have a: "map_option emojiList (fillEmojiString env0 ?s) = Some [1, 2, 3, 4, 5, 6, 7, 8, 9, 10]"
    using s' by simp
  have b: "map_option emojiList (fillEmojiString env0 (widget0\<lparr>photo := Some photo0\<rparr>)) = Some []"
    by (simp add: fillEmojiString_def)
  have c: "fillEmojiString env0 widget0 = None"
    by (simp add: fillEmojiString_def widget0_def)
  from a b c show ?thesis by simp
qed

section \<open>The Linux platform utility: nothing happens\<close>

text \<open>
  C6. \<^verbatim>\<open>StartTranslucentPaint\<close>, \<^verbatim>\<open>InitOnTopPanel\<close>, \<^verbatim>\<open>DeInitOnTopPanel\<close>,
  \<^verbatim>\<open>ReInitOnTopPanel\<close>, \<^verbatim>\<open>UpdateOverlayed\<close>, \<^verbatim>\<open>ShowOverAll\<close> and \<^verbatim>\<open>BringToBack\<close>
  return the state they were given, for every argument, and \<^verbatim>\<open>UseMainQueueGeneric\<close>
  is true.
\<close>

theorem platform_utility_noops:
  "StartTranslucentPaint w p e = w
   \<and> InitOnTopPanel w panel = w
   \<and> DeInitOnTopPanel w panel = w
   \<and> ReInitOnTopPanel w panel = w
   \<and> UpdateOverlayed w widget = w
   \<and> ShowOverAll w widget canFocus = w
   \<and> BringToBack w widget = w
   \<and> UseMainQueueGeneric"
  by (simp add: StartTranslucentPaint_def InitOnTopPanel_def DeInitOnTopPanel_def
      ReInitOnTopPanel_def UpdateOverlayed_def ShowOverAll_def BringToBack_def
      UseMainQueueGeneric_def)

section \<open>The cache agrees with the previewed document\<close>

lemma currentDimensions_document_state:
  assumes "photo s = None" "document s = Some d"
  shows "snd (currentDimensions env s) = s"
proof (cases "isEmpty (cachedSize s)")
  case True
  then show ?thesis using assms by (simp add: currentDimensions_document)
next
  case False
  then show ?thesis by (simp add: currentDimensions_cached)
qed

lemma cachedSizeAfter_document:
  "photo s = None \<Longrightarrow> document s = Some d \<Longrightarrow> cachedSizeAfter env s = cachedSize s"
  by (simp add: cachedSizeAfter_def currentDimensions_document_state)

lemma sticker_dimensions:
  assumes "coherent env s" "document s = Some d" "sticker d = Some st"
  shows "currentDimensions env (s\<lparr>lottie := l\<rparr>) = (stickerSize env d, s\<lparr>lottie := l\<rparr>)"
proof -
  have "photo s = None" "isEmpty (cachedSize s)" "gif s = Reader_null"
    using assms by (simp_all add: coherent_def)
  then show ?thesis using assms(2)
    by (simp add: currentDimensions_document stickerSize_def documentResult_def)
qed

lemma coherent_no_document: "document s = None \<Longrightarrow> coherent env s"
  by (simp add: coherent_def)

text \<open>\<open>coherent\<close> looks at seven fields only.\<close>

lemma coherent_cong:
  assumes "coherent env s"
    and "document s' = document s" "photo s' = photo s" "cachedSize s' = cachedSize s"
    and "gif s' = gif s" "cacheStatus s' = cacheStatus s" "cache s' = cache s"
    and "origin s' = origin s"
  shows "coherent env s'"
  using assms by (auto simp: coherent_def split: option.splits if_splits)

lemma currentImage_sticker_coherent:
  assumes "coherent env s" "document s = Some d" "sticker d = Some st"
    and "currentImage_sticker env s d st = Some (pm, s')"
  shows "coherent env s'"
proof -
  have p: "photo s = None" "isEmpty (cachedSize s)" "gif s = Reader_null"
    using assms(1-3) by (simp_all add: coherent_def)
  have dims: "currentDimensions env (s\<lparr>lottie := l\<rparr>) = (stickerSize env d, s\<lparr>lottie := l\<rparr>)" for l
    using assms(1-3) by (rule sticker_dimensions)
  have dims0: "currentDimensions env s = (stickerSize env d, s)"
    using dims [of "lottie s"] by simp
  have c: "cachedSizeAfter env s = cachedSize s"
    using p(1) assms(2) by (rule cachedSizeAfter_document)
  have su: "setupLottie env s =
     Some (s\<lparr>lottie := Some (Lottie_SinglePlayer env d
               (QSize_times env (stickerSize env d) (cIntRetinaFactor env)))\<rparr>)"
    using assms(2) dims0 by (simp add: setupLottie_def)
  show ?thesis
    using assms(4) assms(1-3) p
    by (auto simp: currentImage_sticker_def su dims dims0 coherent_def
        split: if_splits option.splits)
qed

lemma currentImage_clip_coherent:
  assumes "coherent env s" "document s = Some d" "sticker d = None"
    and "currentImage_clip env s d = Some (pm, s')"
  shows "coherent env s'"
proof -
  have p: "photo s = None" "isEmpty (cachedSize s)"
    using assms(1,2) by (simp_all add: coherent_def)
  obtain pm' t where t: "currentImage_clip env s d = Some (pm', t)" "sameControl s t"
    using currentImage_clip_frame by blast
  have "cachedSize s' = cachedSize s"
    using assms(4) p(1) assms(2)
    by (auto simp: currentImage_clip_def Let_def case_prod_beta snd_currentDimensions
        cachedSizeAfter_document split: ReaderPointer.splits if_splits)
  moreover have "photo s' = photo s" "document s' = document s"
    using t assms(4) by (simp_all add: sameControl_def)
  ultimately show ?thesis using p assms(2,3) by (simp add: coherent_def)
qed

lemma currentImage_coherent:
  assumes "coherent env s" "currentImage env s = Some (pm, s')"
  shows "coherent env s'"
proof (cases "document s")
  case None
  obtain pm' t where "currentImage env s = Some (pm', t)" "sameControl s t"
    using currentImage_frame by blast
  then have "document s' = None" using assms(2) None by (simp add: sameControl_def)
  then show ?thesis by (rule coherent_no_document)
next
  case (Some d)
  show ?thesis
  proof (cases "sticker d")
    case None
    then show ?thesis using assms Some currentImage_clip_coherent [of env s d pm s']
      by (simp add: currentImage_def)
  next
    case st: (Some st)
    then show ?thesis using assms Some currentImage_sticker_coherent [of env s d st pm s']
      by (simp add: currentImage_def)
  qed
qed

lemma clipCallback_coherent:
  assumes "coherent env s"
  shows "coherent env (clipCallback env s n)"
proof (cases "document s")
  case None
  then have "document (clipCallback env s n) = None"
    using clipCallback_sameControl [of s env n] by (simp add: sameControl_def)
  then show ?thesis by (rule coherent_no_document)
next
  case (Some d)
  then have p: "photo s = None" "isEmpty (cachedSize s)"
    using assms by (simp_all add: coherent_def)
  have frame: "photo (clipCallback env s n) = None" "document (clipCallback env s n) = Some d"
    using clipCallback_sameControl [of s env n] p(1) Some by (simp_all add: sameControl_def)
  have size: "cachedSize (clipCallback env s n) = cachedSize s"
    using p(1) Some
    by (cases n)
       (simp_all add: clipCallback_def updateArea_def Let_def case_prod_beta update_def
          snd_currentDimensions cachedSizeAfter_document split: ReaderPointer.split)
  show ?thesis
  proof (cases "sticker d")
    case None
    then show ?thesis using frame size p by (simp add: coherent_def)
  next
    case st: (Some st)
    then have g: "gif s = Reader_null" using assms Some by (simp add: coherent_def)
    then have "clipCallback env s n = update s \<or> clipCallback env s n = s"
      by (cases n) (simp_all add: clipCallback_def)
    then show ?thesis using assms by (auto simp: update_def elim: coherent_cong)
  qed
qed

lemma lottieDisplayFrameRequest_coherent:
  assumes "coherent env s"
  shows "coherent env (lottieDisplayFrameRequest env s)"
proof (cases "document s")
  case None
  then have "document (lottieDisplayFrameRequest env s) = None"
    using lottieDisplayFrameRequest_sameControl [of s env] by (simp add: sameControl_def)
  then show ?thesis by (rule coherent_no_document)
next
  case (Some d)
  then have p: "photo s = None" using assms by (simp add: coherent_def)
  have "lottieDisplayFrameRequest env s =
      s\<lparr>requests := requests (lottieDisplayFrameRequest env s)\<rparr>"
    using p Some
    by (simp add: lottieDisplayFrameRequest_def updateArea_def case_prod_beta
        currentDimensions_document_state)
  moreover have "coherent env (s\<lparr>requests := rq\<rparr>)" for rq
    by (rule coherent_cong [OF assms]) simp_all
  ultimately show ?thesis by metis
qed


text \<open>Every event keeps the cache in agreement with the previewed document.\<close>

lemma step_coherent:
  assumes "coherent env s" "step env e s = Some s'"
  shows "coherent env s'"
proof (cases e)
  case (ShowPreviewDocument origin' d)
  show ?thesis
  proof (cases "notPreviewable d")
    case True
    then have "hidePreview env s = Some s'"
      using assms(2) ShowPreviewDocument by (simp add: showPreview_document_rejected)
    moreover have "document s' = None" if vis: "\<not> isHidden s"
    proof -
      obtain s1 where "hidePreview env s =
             Some (resetGifAndCache
                     (s1\<lparr>hiding := True, a_shown := Running 1 0 (stickerPreviewDuration env),
                         photo := None, document := None\<rparr>))"
        using vis hidePreview_visible by blast
      then show ?thesis using \<open>hidePreview env s = Some s'\<close>
        by (auto simp: resetGifAndCache_fields)
    qed
    ultimately show ?thesis using assms(1)
      by (cases "isHidden s") (auto simp: hidePreview_hidden coherent_no_document)
  next
    case False
    then have "s' = resetGifAndCache
             ((startShow env s)\<lparr>origin := origin', photo := None, document := Some d,
                                emojiList := emojiOf env d\<rparr>)"
      using assms(2) ShowPreviewDocument by (simp add: showPreview_document_eq)
    then show ?thesis
      by (simp add: coherent_def resetGifAndCache_def isEmpty_default split: option.split)
  qed
next
  case (ShowPreviewPhoto origin' p)
  then have "document s' = None"
    using assms(2) by (auto simp: showPreview_photo_eq resetGifAndCache_fields)
  then show ?thesis by (rule coherent_no_document)
next
  case HidePreview
  have "document s' = None" if vis: "\<not> isHidden s"
  proof -
    obtain s1 where "hidePreview env s =
           Some (resetGifAndCache
                   (s1\<lparr>hiding := True, a_shown := Running 1 0 (stickerPreviewDuration env),
                       photo := None, document := None\<rparr>))"
      using vis hidePreview_visible by blast
    then show ?thesis using assms(2) HidePreview by (auto simp: resetGifAndCache_fields)
  qed
  then show ?thesis using assms HidePreview
    by (cases "isHidden s") (auto simp: hidePreview_hidden coherent_no_document)
next
  case PaintEvent
  obtain s0 s1 where s0: "s0 = s \<or> (\<exists>l. s0 = s\<lparr>lottie := Some l\<rparr>)"
    and s1: "s1 = s0 \<or> (\<exists>pm. currentImage env s0 = Some (pm, s1))"
    and p: "paintEvent env s =
       Some (if \<not> animating (a_shown s) \<and> hiding s
             then s1\<lparr>isHidden := True, gifPauseReasons := gifPauseReasons s - {MediaPreview}\<rparr>
             else s1)"
    using paintEvent_eq by blast
  have "coherent env s0"
    using s0 by (auto intro: coherent_cong [OF assms(1)])
  then have c1: "coherent env s1"
    using s1 currentImage_coherent by blast
  have "coherent env (s1\<lparr>isHidden := True, gifPauseReasons := g\<rparr>)" for g
    by (rule coherent_cong [OF c1]) simp_all
  then show ?thesis using p c1 assms(2) PaintEvent by (auto split: if_splits)
next
  case (ResizeEvent w h)
  then have "s' = s\<lparr>widget_width := w, widget_height := h, requests := requests s @ [Update]\<rparr>"
    using assms(2) by (auto simp: resizeEvent_def update_def)
  then show ?thesis by (auto intro: coherent_cong [OF assms(1)])
next
  case (ClipCallback n)
  then show ?thesis using assms clipCallback_coherent by auto
next
  case DownloaderTaskFinished
  then have "s' = s\<lparr>requests := requests s @ [Update]\<rparr>"
    using assms(2) by (auto simp: update_def)
  then show ?thesis by (auto intro: coherent_cong [OF assms(1)])
next
  case LottieInformation
  then have "s' = s \<or> s' = s\<lparr>requests := requests s @ [Update]\<rparr>"
    using assms(2) by (auto simp: update_def split: if_splits)
  then show ?thesis using assms(1) by (auto intro: coherent_cong [OF assms(1)])
next
  case LottieDisplayFrameRequest
  then show ?thesis using assms lottieDisplayFrameRequest_coherent
    by (auto split: if_splits)
next
  case (AnimationCallback f)
  then have "s' = animationCallback f s" using assms(2) by simp
  then have "document s' = document s" "photo s' = photo s" "cachedSize s' = cachedSize s"
    "gif s' = gif s" "cacheStatus s' = cacheStatus s" "cache s' = cache s"
    "origin s' = origin s"
    by (simp_all add: animationCallback_def update_def)
  then show ?thesis by (rule coherent_cong [OF assms(1)])
qed

lemma run_coherent:
  "coherent env s \<Longrightarrow> \<exists>s'. run env es s = Some s' \<and> coherent env s'"
proof (induction es arbitrary: s)
  case Nil
  then show ?case by simp
next
  case (Cons e es)
  obtain s1 where s1: "step env e s = Some s1" using step_total by blast
  then have "coherent env s1" using Cons.prems step_coherent by blast
  then show ?case using Cons.IH s1 by simp
qed

section \<open>The cached size is up to date\<close>



















section \<open>The cached size\<close>

lemma photoBox_cachedSize: "photoBox env (s\<lparr>cachedSize := c\<rparr>) = photoBox env s"
  by (simp add: photoBox_def)

lemma currentDimensions_idem:
  "currentDimensions env (snd (currentDimensions env s)) = currentDimensions env s"
proof (cases "isEmpty (cachedSize s)")
  case False
  then show ?thesis by (simp add: currentDimensions_cached)
next
  case True
  show ?thesis
  proof (cases "photo s")
    case (Some p)
    define r where "r = fitToBox env \<lparr>width = photo_width p, height = photo_height p\<rparr> (photoBox env s)"
    have a: "currentDimensions env s = (r, s\<lparr>cachedSize := r\<rparr>)"
      using True Some by (simp add: currentDimensions_photo r_def)
    have "currentDimensions env (s\<lparr>cachedSize := r\<rparr>) = (r, s\<lparr>cachedSize := r\<rparr>)"
    proof (cases "isEmpty r")
      case e: True
      then show ?thesis using Some
        by (simp add: currentDimensions_photo photoBox_cachedSize r_def [symmetric])
    next
      case False
      then show ?thesis by (simp add: currentDimensions_cached)
    qed
    then show ?thesis using a by simp
  next
    case None
    show ?thesis
    proof (cases "document s")
      case (Some d)
      then show ?thesis using None by (simp add: currentDimensions_document_state)
    next
      case N2: None
      define r where "r = \<lparr>width = cdiv (pm_width (cache s)) (cIntRetinaFactor env),
                           height = cdiv (pm_height (cache s)) (cIntRetinaFactor env)\<rparr>"
      have a: "currentDimensions env s = (r, s\<lparr>cachedSize := r\<rparr>)"
        using True None N2 by (simp add: currentDimensions_nothing r_def)
      have "currentDimensions env (s\<lparr>cachedSize := r\<rparr>) = (r, s\<lparr>cachedSize := r\<rparr>)"
      proof (cases "isEmpty r")
        case e: True
        then show ?thesis using None N2
          by (simp add: currentDimensions_nothing r_def [symmetric])
      next
        case False
        then show ?thesis by (simp add: currentDimensions_cached)
      qed
      then show ?thesis using a by simp
    qed
  qed
qed

text \<open>
  C8, as amended. A second call of \<^verbatim>\<open>currentDimensions\<close> returns what the first
  returned and changes nothing more. For a photo with no size held, the first call
  stores the fitted size in \<^verbatim>\<open>_cachedSize\<close>. When that size is not empty, as it is
  whenever the photo's box is at least 1 by 1, a state that holds it gets it back
  whatever its other fields are: the call returns at line 184 and computes nothing. When
  it is empty the test of line 183 fails and a state that holds it computes the size
  again. For a document the call leaves the state as it is, so no size is cached, and in
  every state that the events lead to from one in which the cache agrees with the
  document, a previewed document has an empty \<^verbatim>\<open>_cachedSize\<close> and its size is
  computed in the call.
\<close>

theorem currentDimensions_cache:
  "currentDimensions env (snd (currentDimensions env s)) = currentDimensions env s
   \<and> (\<forall>p. photo s = Some p \<and> isEmpty (cachedSize s) \<longrightarrow>
        currentDimensions env s = (photoSize env s p, s\<lparr>cachedSize := photoSize env s p\<rparr>)
        \<and> currentDimensions env (s\<lparr>cachedSize := photoSize env s p\<rparr>)
            = (photoSize env s p, s\<lparr>cachedSize := photoSize env s p\<rparr>)
        \<and> returnsCached (s\<lparr>cachedSize := photoSize env s p\<rparr>)
            = (\<not> isEmpty (photoSize env s p))
        \<and> (\<not> isEmpty (photoSize env s p) \<longrightarrow>
             (\<forall>t. cachedSize t = photoSize env s p \<longrightarrow>
                  currentDimensions env t = (photoSize env s p, t)))
        \<and> (isEmpty (photoSize env s p) \<longrightarrow>
             (\<forall>t. photo t = Some p \<and> cachedSize t = photoSize env s p \<longrightarrow>
                  currentDimensions env t
                    = (photoSize env t p, t\<lparr>cachedSize := photoSize env t p\<rparr>)))
        \<and> (1 \<le> width (photoBox env s) \<and> 1 \<le> height (photoBox env s) \<longrightarrow>
             \<not> isEmpty (photoSize env s p)))
   \<and> (\<forall>d. photo s = None \<and> document s = Some d \<longrightarrow> snd (currentDimensions env s) = s)
   \<and> (\<forall>d. coherent env s \<and> document s = Some d \<longrightarrow>
        isEmpty (cachedSize s)
        \<and> currentDimensions env s = (fitToBox env (documentResult s d) (documentBox env d), s))
   \<and> (coherent env s \<longrightarrow> (\<exists>s'. run env es s = Some s' \<and> coherent env s'))"
proof -
  have a: "currentDimensions env (snd (currentDimensions env s)) = currentDimensions env s"
    by (rule currentDimensions_idem)
  have b: "\<forall>p. photo s = Some p \<and> isEmpty (cachedSize s) \<longrightarrow>
        currentDimensions env s = (photoSize env s p, s\<lparr>cachedSize := photoSize env s p\<rparr>)
        \<and> currentDimensions env (s\<lparr>cachedSize := photoSize env s p\<rparr>)
            = (photoSize env s p, s\<lparr>cachedSize := photoSize env s p\<rparr>)
        \<and> returnsCached (s\<lparr>cachedSize := photoSize env s p\<rparr>)
            = (\<not> isEmpty (photoSize env s p))
        \<and> (\<not> isEmpty (photoSize env s p) \<longrightarrow>
             (\<forall>t. cachedSize t = photoSize env s p \<longrightarrow>
                  currentDimensions env t = (photoSize env s p, t)))
        \<and> (isEmpty (photoSize env s p) \<longrightarrow>
             (\<forall>t. photo t = Some p \<and> cachedSize t = photoSize env s p \<longrightarrow>
                  currentDimensions env t
                    = (photoSize env t p, t\<lparr>cachedSize := photoSize env t p\<rparr>)))
        \<and> (1 \<le> width (photoBox env s) \<and> 1 \<le> height (photoBox env s) \<longrightarrow>
             \<not> isEmpty (photoSize env s p))"
  proof (intro allI impI)
    fix p
    assume h: "photo s = Some p \<and> isEmpty (cachedSize s)"
    then have first: "currentDimensions env s
        = (photoSize env s p, s\<lparr>cachedSize := photoSize env s p\<rparr>)"
      by (simp add: currentDimensions_photo photoSize_def)
    then have second: "currentDimensions env (s\<lparr>cachedSize := photoSize env s p\<rparr>)
        = (photoSize env s p, s\<lparr>cachedSize := photoSize env s p\<rparr>)"
      using currentDimensions_idem [of env s] by simp
    have third: "\<not> isEmpty (photoSize env s p) \<longrightarrow>
             (\<forall>t. cachedSize t = photoSize env s p \<longrightarrow>
                  currentDimensions env t = (photoSize env s p, t))"
      by (simp add: currentDimensions_cached)
    have guard: "returnsCached (s\<lparr>cachedSize := photoSize env s p\<rparr>)
            = (\<not> isEmpty (photoSize env s p))"
      by (simp add: returnsCached_def)
    have again: "isEmpty (photoSize env s p) \<longrightarrow>
             (\<forall>t. photo t = Some p \<and> cachedSize t = photoSize env s p \<longrightarrow>
                  currentDimensions env t
                    = (photoSize env t p, t\<lparr>cachedSize := photoSize env t p\<rparr>))"
      by (simp add: currentDimensions_photo photoSize_def)
    have nonempty: "1 \<le> width (photoBox env s) \<and> 1 \<le> height (photoBox env s) \<longrightarrow>
             \<not> isEmpty (photoSize env s p)"
      using fitToBox_fits [of "photoBox env s" env
          "\<lparr>width = photo_width p, height = photo_height p\<rparr>"]
      by (auto simp: photoSize_def isEmpty_def)
    from first second third guard again nonempty
    show "currentDimensions env s = (photoSize env s p, s\<lparr>cachedSize := photoSize env s p\<rparr>)
        \<and> currentDimensions env (s\<lparr>cachedSize := photoSize env s p\<rparr>)
            = (photoSize env s p, s\<lparr>cachedSize := photoSize env s p\<rparr>)
        \<and> returnsCached (s\<lparr>cachedSize := photoSize env s p\<rparr>)
            = (\<not> isEmpty (photoSize env s p))
        \<and> (\<not> isEmpty (photoSize env s p) \<longrightarrow>
             (\<forall>t. cachedSize t = photoSize env s p \<longrightarrow>
                  currentDimensions env t = (photoSize env s p, t)))
        \<and> (isEmpty (photoSize env s p) \<longrightarrow>
             (\<forall>t. photo t = Some p \<and> cachedSize t = photoSize env s p \<longrightarrow>
                  currentDimensions env t
                    = (photoSize env t p, t\<lparr>cachedSize := photoSize env t p\<rparr>)))
        \<and> (1 \<le> width (photoBox env s) \<and> 1 \<le> height (photoBox env s) \<longrightarrow>
             \<not> isEmpty (photoSize env s p))"
      by blast
  qed
  have c: "\<forall>d. photo s = None \<and> document s = Some d \<longrightarrow> snd (currentDimensions env s) = s"
    by (simp add: currentDimensions_document_state)
  have d: "\<forall>d. coherent env s \<and> document s = Some d \<longrightarrow>
        isEmpty (cachedSize s)
        \<and> currentDimensions env s = (fitToBox env (documentResult s d) (documentBox env d), s)"
    by (auto simp: coherent_def currentDimensions_document)
  have e: "coherent env s \<longrightarrow> (\<exists>s'. run env es s = Some s' \<and> coherent env s')"
    using run_coherent by blast
  from a b c d e show ?thesis by blast
qed

text \<open>
  The theorem at the photo of 2000 by 1000 in the widget of 1000 by 800: the first call
  caches 984 by 492, and a widget resized to 400 by 300 that holds this size gets it back.
  At the sticker, the call changes nothing.
\<close>

theorem currentDimensions_cache_witness:
  "isEmpty (cachedSize (widget0\<lparr>photo := Some photo0\<rparr>))
   \<and> photoSize env0 (widget0\<lparr>photo := Some photo0\<rparr>) photo0 = \<lparr>width = 984, height = 492\<rparr>
   \<and> currentDimensions env0 (widget0\<lparr>photo := Some photo0\<rparr>)
       = (\<lparr>width = 984, height = 492\<rparr>,
          widget0\<lparr>photo := Some photo0, cachedSize := \<lparr>width = 984, height = 492\<rparr>\<rparr>)
   \<and> currentDimensions env0
        (widget0\<lparr>photo := Some photo0, cachedSize := \<lparr>width = 984, height = 492\<rparr>,
                 widget_width := 400, widget_height := 300\<rparr>)
       = (\<lparr>width = 984, height = 492\<rparr>,
          widget0\<lparr>photo := Some photo0, cachedSize := \<lparr>width = 984, height = 492\<rparr>,
                 widget_width := 400, widget_height := 300\<rparr>)
   \<and> coherent env0 (widget0\<lparr>document := Some sticker0\<rparr>)
   \<and> currentDimensions env0 (widget0\<lparr>document := Some sticker0\<rparr>)
       = (\<lparr>width = 256, height = 256\<rparr>, widget0\<lparr>document := Some sticker0\<rparr>)"
proof -
  let ?s = "widget0\<lparr>photo := Some photo0\<rparr>"
  let ?t = "widget0\<lparr>photo := Some photo0, cachedSize := \<lparr>width = 984, height = 492\<rparr>,
                 widget_width := 400, widget_height := 300\<rparr>"
  let ?u = "widget0\<lparr>document := Some sticker0\<rparr>"
  have e: "isEmpty (cachedSize ?s)" by (simp add: widget0_def isEmpty_default)
  have p: "photo ?s = Some photo0" by simp
  have r: "photoSize env0 ?s photo0 = \<lparr>width = 984, height = 492\<rparr>"
    by (simp add: photoSize_def fitToBox_def photoBox_def env0_def widget0_def photo0_def
        qMax_def cdiv_def csub_def cmul_def int32_def Let_def)
  have ne: "\<not> isEmpty (photoSize env0 ?s photo0)" by (simp add: r isEmpty_def)
  have ct: "cachedSize ?t = photoSize env0 ?s photo0" by (simp add: r)
  note photos = currentDimensions_cache [of env0 ?s, THEN conjunct2, THEN conjunct1,
      rule_format, of photo0]
  have first: "currentDimensions env0 ?s = (\<lparr>width = 984, height = 492\<rparr>,
          widget0\<lparr>photo := Some photo0, cachedSize := \<lparr>width = 984, height = 492\<rparr>\<rparr>)"
    using photos p e r by simp
  have "\<forall>t. cachedSize t = photoSize env0 ?s photo0 \<longrightarrow>
          currentDimensions env0 t = (photoSize env0 ?s photo0, t)"
    using photos p e ne by blast
  then have later: "currentDimensions env0 ?t = (\<lparr>width = 984, height = 492\<rparr>, ?t)"
    using ct r by simp
  have co: "coherent env0 ?u"
    by (simp add: coherent_def widget0_def sticker0_def isEmpty_default)
  have dr: "fitToBox env0 (documentResult ?u sticker0) (documentBox env0 sticker0)
      = \<lparr>width = 256, height = 256\<rparr>"
    by (simp add: fitToBox_def documentResult_def documentBox_def env0_def widget0_def
        sticker0_def qMax_def cdiv_def cmul_def int32_def Let_def)
  have du: "document ?u = Some sticker0" by simp
  note docs = currentDimensions_cache [of env0 ?u, THEN conjunct2, THEN conjunct2,
      THEN conjunct2, THEN conjunct1, rule_format, of sticker0]
  have doc: "currentDimensions env0 ?u = (\<lparr>width = 256, height = 256\<rparr>, ?u)"
    using docs co du dr by simp
  from e r first later co doc show ?thesis by simp
qed

text \<open>
  C8 as stated fails for a photo whose fitted size is empty. In a widget of 10 by 10 the
  photo of 2000 by 1000 is shown and painted: the size stored in \<^verbatim>\<open>_cachedSize\<close> is
  36 by -6, so the test of line 183 fails at the next call and the size is computed
  again; after a resize to 1000 by 800 the call returns 984 by 492, not the stored size.
\<close>

theorem currentDimensions_recomputes:
  "map_option cachedSize
     (run env0 [ResizeEvent 10 10, ShowPreviewPhoto 1 photo0, PaintEvent] widget0)
     = Some \<lparr>width = 36, height = - 6\<rparr>
   \<and> map_option returnsCached
     (run env0 [ResizeEvent 10 10, ShowPreviewPhoto 1 photo0, PaintEvent] widget0)
     = Some False
   \<and> map_option (fst \<circ> currentDimensions env0)
     (run env0 [ResizeEvent 10 10, ShowPreviewPhoto 1 photo0, PaintEvent] widget0)
     = Some \<lparr>width = 36, height = - 6\<rparr>
   \<and> map_option (fst \<circ> currentDimensions env0)
     (run env0 [ResizeEvent 10 10, ShowPreviewPhoto 1 photo0, PaintEvent,
                ResizeEvent 1000 800] widget0)
     = Some \<lparr>width = 984, height = 492\<rparr>"
  by (simp add: env0_def widget0_def photo0_def showPreview_photo_def startShow_def
      fillEmojiString_def resetGifAndCache_def paintEvent_def currentImage_def
      currentImage_photo_def currentDimensions_def fitToBox_def photoBox_def
      resizeEvent_def update_def isEmpty_def QSize_default_def qMax_def cdiv_def cmul_def
      csub_def int32_def QPixmap_null_def returnsCached_def Let_def)

section \<open>The picture of a sticker\<close>

lemma sticker_setup:
  assumes "coherent env s" "document s = Some d" "sticker d = Some st"
  shows "(if animated st \<and> lottie s = None \<and> doc_loaded d
          then setupLottie env s else Some s) = Some (withPlayer env s d st)"
proof -
  have "currentDimensions env s = (stickerSize env d, s)"
    using sticker_dimensions [OF assms, of "lottie s"] by simp
  then have "setupLottie env s = Some (s\<lparr>lottie := Some (stickerPlayer env d)\<rparr>)"
    using assms(2) by (simp add: setupLottie_def stickerPlayer_def)
  then show ?thesis by (simp add: withPlayer_def)
qed

lemma withPlayer_fields:
  "cacheStatus (withPlayer env s d st) = cacheStatus s"
  "cache (withPlayer env s d st) = cache s"
  "origin (withPlayer env s d st) = origin s"
  by (simp_all add: withPlayer_def)

lemma withPlayer_dimensions:
  assumes "coherent env s" "document s = Some d" "sticker d = Some st"
  shows "currentDimensions env (withPlayer env s d st) = (stickerSize env d, withPlayer env s d st)"
  using sticker_dimensions [OF assms, of "Some (stickerPlayer env d)"]
    sticker_dimensions [OF assms, of "lottie s"]
  by (simp add: withPlayer_def)

text \<open>
  C3. For a previewed sticker whose cache agrees with it (as it does in every state the
  events lead to) and whose status is not \<open>CacheLoaded\<close>, \<^verbatim>\<open>currentImage\<close> first makes
  the lottie player if the sticker is animated and loaded and has none, and then: if the
  player is ready it returns the null pixmap; otherwise, if the full sticker image is
  there, it returns that image at the sticker's size, caches it and sets the status to
  \<open>CacheLoaded\<close>; otherwise, if the thumbnail is loaded, it returns the blurred
  thumbnail at the sticker's size, which is the cached pixmap after the call, with the
  status \<open>CacheThumbLoaded\<close>; otherwise it returns the cache as it is. With the
  status \<open>CacheLoaded\<close>, before this call or after it, a call returns the cached
  pixmap and changes nothing.
\<close>

theorem currentImage_sticker_order:
  assumes "coherent env s" "document s = Some d" "sticker d = Some st"
  shows "(if cacheStatus s = CacheLoaded
          then currentImage env s = Some (cache s, s)
          else if lottieReady (withPlayer env s d st)
          then currentImage env s = Some (QPixmap_null, withPlayer env s d st)
          else case getStickerLarge d of
            Some img \<Rightarrow>
              currentImage env s =
                Some (pix env img (origin s) (width (stickerSize env d)) (height (stickerSize env d)),
                      (withPlayer env s d st)
                        \<lparr>cache := pix env img (origin s) (width (stickerSize env d))
                                    (height (stickerSize env d)),
                         cacheStatus := CacheLoaded\<rparr>)
          | None \<Rightarrow>
              if hasThumbnail d \<and> image_loaded (doc_thumbnail d)
              then \<exists>s'. currentImage env s =
                       Some (pixBlurred env (doc_thumbnail d) (origin s)
                               (width (stickerSize env d)) (height (stickerSize env d)), s')
                     \<and> cache s' = pixBlurred env (doc_thumbnail d) (origin s)
                                    (width (stickerSize env d)) (height (stickerSize env d))
                     \<and> cacheStatus s' = CacheThumbLoaded
              else currentImage env s = Some (cache s, withPlayer env s d st))
     \<and> (\<forall>pm s'. currentImage env s = Some (pm, s') \<and> cacheStatus s' = CacheLoaded
          \<longrightarrow> currentImage env s' = Some (cache s', s'))"
proof -
  have ci: "currentImage env t = currentImage_sticker env t d st" if "document t = Some d" for t
    using that assms(3) by (simp add: currentImage_def)
  have loaded: "currentImage env t = Some (cache t, t)"
    if "document t = Some d" "cacheStatus t = CacheLoaded" for t
    using that ci [of t] by (simp add: currentImage_sticker_def)
  have su: "(if animated st \<and> lottie s = None \<and> doc_loaded d
          then setupLottie env s else Some s) = Some (withPlayer env s d st)"
    using assms by (rule sticker_setup)
  have dims: "currentDimensions env (withPlayer env s d st)
      = (stickerSize env d, withPlayer env s d st)"
    using assms by (rule withPlayer_dimensions)
  have thumb: "cacheStatus s = CacheThumbLoaded \<Longrightarrow>
      cache s = pixBlurred env (doc_thumbnail d) (origin s)
                  (width (stickerSize env d)) (height (stickerSize env d))"
    using assms by (simp add: coherent_def)
  have first: "if cacheStatus s = CacheLoaded
          then currentImage env s = Some (cache s, s)
          else if lottieReady (withPlayer env s d st)
          then currentImage env s = Some (QPixmap_null, withPlayer env s d st)
          else case getStickerLarge d of
            Some img \<Rightarrow>
              currentImage env s =
                Some (pix env img (origin s) (width (stickerSize env d)) (height (stickerSize env d)),
                      (withPlayer env s d st)
                        \<lparr>cache := pix env img (origin s) (width (stickerSize env d))
                                    (height (stickerSize env d)),
                         cacheStatus := CacheLoaded\<rparr>)
          | None \<Rightarrow>
              if hasThumbnail d \<and> image_loaded (doc_thumbnail d)
              then \<exists>s'. currentImage env s =
                       Some (pixBlurred env (doc_thumbnail d) (origin s)
                               (width (stickerSize env d)) (height (stickerSize env d)), s')
                     \<and> cache s' = pixBlurred env (doc_thumbnail d) (origin s)
                                    (width (stickerSize env d)) (height (stickerSize env d))
                     \<and> cacheStatus s' = CacheThumbLoaded
              else currentImage env s = Some (cache s, withPlayer env s d st)"
  proof (cases "cacheStatus s = CacheLoaded")
    case True
    then show ?thesis using loaded [OF assms(2)] by simp
  next
    case False
    have eq: "currentImage env s =
        (if lottieReady (withPlayer env s d st) then Some (QPixmap_null, withPlayer env s d st)
         else case getStickerLarge d of
           Some img \<Rightarrow>
             Some (pix env img (origin s) (width (stickerSize env d)) (height (stickerSize env d)),
                   (withPlayer env s d st)
                     \<lparr>cache := pix env img (origin s) (width (stickerSize env d))
                                 (height (stickerSize env d)),
                      cacheStatus := CacheLoaded\<rparr>)
         | None \<Rightarrow>
             if cacheStatus s \<noteq> CacheThumbLoaded \<and> hasThumbnail d
                \<and> image_loaded (doc_thumbnail d)
             then Some (pixBlurred env (doc_thumbnail d) (origin s)
                          (width (stickerSize env d)) (height (stickerSize env d)),
                        (withPlayer env s d st)
                          \<lparr>cache := pixBlurred env (doc_thumbnail d) (origin s)
                                      (width (stickerSize env d)) (height (stickerSize env d)),
                           cacheStatus := CacheThumbLoaded\<rparr>)
             else Some (cache s, withPlayer env s d st))"
      using False
      by (auto simp: ci [OF assms(2)] currentImage_sticker_def su dims withPlayer_fields
          split: option.split)
    show ?thesis
    proof (cases "cacheStatus s = CacheThumbLoaded")
      case t: True
      then show ?thesis using False eq thumb
        by (auto simp: withPlayer_fields split: option.split)
    next
      case f: False
      then show ?thesis using False eq
        by (auto simp: withPlayer_fields split: option.split)
    qed
  qed
  have second: "\<forall>pm s'. currentImage env s = Some (pm, s') \<and> cacheStatus s' = CacheLoaded
          \<longrightarrow> currentImage env s' = Some (cache s', s')"
  proof (intro allI impI)
    fix pm s'
    assume h: "currentImage env s = Some (pm, s') \<and> cacheStatus s' = CacheLoaded"
    obtain pm' t where "currentImage env s = Some (pm', t)" "sameControl s t"
      using currentImage_frame by blast
    then have "document s' = Some d" using h assms(2) by (simp add: sameControl_def)
    then show "currentImage env s' = Some (cache s', s')" using h loaded by blast
  qed
  from first second show ?thesis by blast
qed

text \<open>
  The theorem at the static sticker just shown, whose thumbnail is loaded and whose full
  image is not: the first paint caches the blurred thumbnail at 256 by 256, and so does
  a later call that finds the status \<open>CacheThumbLoaded\<close>.
\<close>

theorem currentImage_sticker_order_witness:
  "coherent env0 (widget0\<lparr>document := Some sticker0\<rparr>)
   \<and> map_option fst (currentImage env0 (widget0\<lparr>document := Some sticker0\<rparr>))
       = Some \<lparr>pm_width = 256, pm_height = 256, pm_picture = 9\<rparr>
   \<and> map_option (cacheStatus \<circ> snd) (currentImage env0 (widget0\<lparr>document := Some sticker0\<rparr>))
       = Some CacheThumbLoaded
   \<and> map_option fst
        (currentImage env0
           (widget0\<lparr>document := Some sticker0, cacheStatus := CacheThumbLoaded,
                    cache := \<lparr>pm_width = 256, pm_height = 256, pm_picture = 9\<rparr>\<rparr>))
       = Some \<lparr>pm_width = 256, pm_height = 256, pm_picture = 9\<rparr>"
proof -
  let ?s = "widget0\<lparr>document := Some sticker0\<rparr>"
  let ?t = "widget0\<lparr>document := Some sticker0, cacheStatus := CacheThumbLoaded,
                    cache := \<lparr>pm_width = 256, pm_height = 256, pm_picture = 9\<rparr>\<rparr>"
  have sz: "stickerSize env0 sticker0 = \<lparr>width = 256, height = 256\<rparr>"
    by (simp add: stickerSize_def fitToBox_def documentBox_def env0_def sticker0_def
        qMax_def cdiv_def cmul_def int32_def Let_def)
  have px: "pixBlurred env0 (doc_thumbnail sticker0) 0 256 256
      = \<lparr>pm_width = 256, pm_height = 256, pm_picture = 9\<rparr>"
    by (simp add: env0_def sticker0_def)
  have cs: "coherent env0 ?s"
    by (simp add: coherent_def widget0_def sticker0_def isEmpty_default)
  have st: "sticker sticker0 = Some \<lparr>alt = ''x'', animated = False\<rparr>"
    by (simp add: sticker0_def)
  have ct: "coherent env0 ?t"
    by (simp add: coherent_def widget0_def isEmpty_default sz px st)
  have facts: "getStickerLarge sticker0 = None" "hasThumbnail sticker0"
    "image_loaded (doc_thumbnail sticker0)"
    by (simp_all add: sticker0_def)
  have np: "\<not> lottieReady (withPlayer env0 s sticker0 \<lparr>alt = ''x'', animated = False\<rparr>)"
    if "lottie s = None" for s
    using that by (simp add: withPlayer_def lottieReady_def)
  have ds: "document ?s = Some sticker0" and dt: "document ?t = Some sticker0" by simp_all
  have a: "\<exists>s'. currentImage env0 ?s =
       Some (\<lparr>pm_width = 256, pm_height = 256, pm_picture = 9\<rparr>, s')
       \<and> cacheStatus s' = CacheThumbLoaded"
    using currentImage_sticker_order [OF cs ds st, THEN conjunct1] facts np [of ?s] sz px
    by (auto simp: widget0_def)
  have b: "\<exists>s'. currentImage env0 ?t =
       Some (\<lparr>pm_width = 256, pm_height = 256, pm_picture = 9\<rparr>, s')
       \<and> cacheStatus s' = CacheThumbLoaded"
    using currentImage_sticker_order [OF ct dt st, THEN conjunct1] facts np [of ?t] sz px
    by (auto simp: widget0_def)
  from a b cs show ?thesis by auto
qed

end
